theory Spec2Isabelle
  imports Main
begin

section \<open>Exceptions\<close>

text \<open>
  The exceptions that the converter and the library calls it makes can raise. A function
  of the source that can raise returns \<open>py_exc + 'a\<close>, with \<open>Inl\<close> the exception.
\<close>

datatype py_exc =
    ValueError
  | OverflowError
  | TypeError
  | AttributeError
  | StopIteration
  | UnicodeDecodeError
  | FileNotFoundError
  | PermissionError
  | OSError
  | UnicodeEncodeError
  | CsvError

section \<open>Text\<close>

text \<open>
  A Python \<open>str\<close> is modelled as a \<open>string\<close>. A \<open>char\<close> stands for the code point of
  the same number, so the model covers text over the code points U+0000 to U+00FF. On
  that range the decimal digits are \<open>0\<close> to \<open>9\<close>, and \<open>str.strip\<close> and \<open>str.lower\<close>
  are the functions below.
\<close>

definition isspace :: "char \<Rightarrow> bool" where
  "isspace c = (of_char c \<in> {9, 10, 11, 12, 13, 28, 29, 30, 31, 32, 133, 160 :: nat})"

definition strip :: "string \<Rightarrow> string" where
  "strip s = rev (dropWhile isspace (rev (dropWhile isspace s)))"

definition lower_char :: "char \<Rightarrow> char" where
  "lower_char c =
     (let n = (of_char c :: nat)
      in if (65 \<le> n \<and> n \<le> 90) \<or> (192 \<le> n \<and> n \<le> 222 \<and> n \<noteq> 215)
         then char_of (n + 32) else c)"

definition lower :: "string \<Rightarrow> string" where
  "lower s = map lower_char s"

definition is_digit :: "char \<Rightarrow> bool" where
  "is_digit c = (c \<in> set ''0123456789'')"

definition digit_val :: "char \<Rightarrow> nat" where
  "digit_val c = of_char c - 48"

definition digit_char :: "nat \<Rightarrow> char" where
  "digit_char n = ''0123456789'' ! (n mod 10)"

definition pad2 :: "nat \<Rightarrow> string" where
  "pad2 n = [digit_char (n div 10), digit_char n]"

text \<open>The decimal digits of a number, without padding.\<close>

fun decimal :: "nat \<Rightarrow> string" where
  "decimal n = (if n < 10 then [digit_char n] else decimal (n div 10) @ [digit_char n])"

declare decimal.simps [simp del]

section \<open>Calendar instants\<close>

text \<open>
  A \<open>datetime\<close> of the standard library, without time zone: the fields the constructor
  stores. \<open>new_datetime\<close> is the constructor called with a date only, which checks the
  date and sets the time to midnight.
\<close>

record datetime =
  year :: nat
  month :: nat
  day :: nat
  hour :: nat
  minute :: nat
  second :: nat
  microsecond :: nat

definition is_leap :: "nat \<Rightarrow> bool" where
  "is_leap y = (y mod 4 = 0 \<and> (y mod 100 \<noteq> 0 \<or> y mod 400 = 0))"

definition days_in_month :: "nat \<Rightarrow> nat \<Rightarrow> nat" where
  "days_in_month y m =
     (if m = 2 \<and> is_leap y then 29
      else [0, 31, 28, 31, 30, 31, 30, 31, 31, 30, 31, 30, 31] ! m)"

definition new_datetime :: "nat \<Rightarrow> nat \<Rightarrow> nat \<Rightarrow> py_exc + datetime" where
  "new_datetime y m d =
     (if 1 \<le> y \<and> y \<le> 9999 \<and> 1 \<le> m \<and> m \<le> 12 \<and> 1 \<le> d \<and> d \<le> days_in_month y m
      then Inr \<lparr>year = y, month = m, day = d, hour = 0, minute = 0, second = 0,
                microsecond = 0\<rparr>
      else Inl ValueError)"

text \<open>
  \<open>dt + timedelta(minutes=n)\<close> for \<open>n \<ge> 0\<close>: the minutes are added to the time of day,
  every full day carried moves the date to the next calendar day, and a date after
  9999-12-31 raises \<open>OverflowError\<close>.
\<close>

definition next_day :: "datetime \<Rightarrow> py_exc + datetime" where
  "next_day dt =
     (if day dt < days_in_month (year dt) (month dt) then Inr (dt\<lparr>day := day dt + 1\<rparr>)
      else if month dt < 12 then Inr (dt\<lparr>month := month dt + 1, day := 1\<rparr>)
      else if year dt < 9999 then Inr (dt\<lparr>year := year dt + 1, month := 1, day := 1\<rparr>)
      else Inl OverflowError)"

fun add_days :: "nat \<Rightarrow> datetime \<Rightarrow> py_exc + datetime" where
  "add_days 0 dt = Inr dt"
| "add_days (Suc n) dt = (case next_day dt of Inl e \<Rightarrow> Inl e | Inr dt' \<Rightarrow> add_days n dt')"

definition add_minutes :: "datetime \<Rightarrow> nat \<Rightarrow> py_exc + datetime" where
  "add_minutes dt n =
     (let total = hour dt * 60 + minute dt + n
      in case add_days (total div 1440) dt of
           Inl e \<Rightarrow> Inl e
         | Inr d \<Rightarrow> Inr (d\<lparr>hour := (total mod 1440) div 60, minute := total mod 60\<rparr>))"

section \<open>Date interpretation: \<open>parse_date\<close>\<close>

text \<open>
  \<open>datetime.strptime\<close> turns the format into a regular expression, matches it at the
  start of the text (alternatives in the order written, backtracking), raises
  \<open>ValueError\<close> when there is no match or when text remains after the match, and then
  builds the date, which raises \<open>ValueError\<close> for a date that does not exist. The
  directives used by the source are
  \<^item> \<open>%d\<close>: \<open>3[0-1]|[1-2]\d|0[1-9]|[1-9]| [1-9]\<close>,
  \<^item> \<open>%m\<close>: \<open>1[0-2]|0[1-9]|[1-9]\<close>,
  \<^item> \<open>%Y\<close>: \<open>\d\d\d\d\<close>.
  Each function below returns the ways its directive matches a prefix of the text, in
  the order the matcher tries them, as pairs of the number read and the rest of the text.
\<close>

definition re_d :: "string \<Rightarrow> (nat \<times> string) list" where
  "re_d s =
     (case s of a # b # r \<Rightarrow>
        (if a = CHR ''3'' \<and> b \<in> set ''01'' then [(30 + digit_val b, r)] else []) | _ \<Rightarrow> [])
     @ (case s of a # b # r \<Rightarrow>
        (if a \<in> set ''12'' \<and> is_digit b then [(10 * digit_val a + digit_val b, r)] else [])
        | _ \<Rightarrow> [])
     @ (case s of a # b # r \<Rightarrow>
        (if a = CHR ''0'' \<and> b \<in> set ''123456789'' then [(digit_val b, r)] else []) | _ \<Rightarrow> [])
     @ (case s of a # r \<Rightarrow>
        (if a \<in> set ''123456789'' then [(digit_val a, r)] else []) | _ \<Rightarrow> [])
     @ (case s of a # b # r \<Rightarrow>
        (if a = CHR '' '' \<and> b \<in> set ''123456789'' then [(digit_val b, r)] else []) | _ \<Rightarrow> [])"

definition re_m :: "string \<Rightarrow> (nat \<times> string) list" where
  "re_m s =
     (case s of a # b # r \<Rightarrow>
        (if a = CHR ''1'' \<and> b \<in> set ''012'' then [(10 + digit_val b, r)] else []) | _ \<Rightarrow> [])
     @ (case s of a # b # r \<Rightarrow>
        (if a = CHR ''0'' \<and> b \<in> set ''123456789'' then [(digit_val b, r)] else []) | _ \<Rightarrow> [])
     @ (case s of a # r \<Rightarrow>
        (if a \<in> set ''123456789'' then [(digit_val a, r)] else []) | _ \<Rightarrow> [])"

definition re_Y :: "string \<Rightarrow> (nat \<times> string) list" where
  "re_Y s =
     (case s of a # b # c # d # r \<Rightarrow>
        (if is_digit a \<and> is_digit b \<and> is_digit c \<and> is_digit d
         then [(1000 * digit_val a + 100 * digit_val b + 10 * digit_val c + digit_val d, r)]
         else [])
      | _ \<Rightarrow> [])"

definition re_lit :: "char \<Rightarrow> string \<Rightarrow> string list" where
  "re_lit c s = (case s of a # r \<Rightarrow> (if a = c then [r] else []) | _ \<Rightarrow> [])"

text \<open>The two formats of the source, \<open>'%d/%m/%Y'\<close> and \<open>'%Y-%m-%d'\<close>.\<close>

datatype layout = DMY | YMD

text \<open>
  All matches of a format at the start of the text, in the matcher's order: year, month
  and day read, and the text left over. The matcher returns the first.
\<close>

fun re_matches :: "layout \<Rightarrow> string \<Rightarrow> ((nat \<times> nat \<times> nat) \<times> string) list" where
  "re_matches DMY s =
     concat (map (\<lambda>(d, r1). concat (map (\<lambda>r2. concat (map (\<lambda>(m, r3).
       concat (map (\<lambda>r4. map (\<lambda>(y, r5). ((y, m, d), r5)) (re_Y r4)) (re_lit CHR ''/'' r3)))
       (re_m r2))) (re_lit CHR ''/'' r1))) (re_d s))"
| "re_matches YMD s =
     concat (map (\<lambda>(y, r1). concat (map (\<lambda>r2. concat (map (\<lambda>(m, r3).
       concat (map (\<lambda>r4. map (\<lambda>(d, r5). ((y, m, d), r5)) (re_d r4)) (re_lit CHR ''-'' r3)))
       (re_m r2))) (re_lit CHR ''-'' r1))) (re_Y s))"

definition strptime :: "string \<Rightarrow> layout \<Rightarrow> py_exc + datetime" where
  "strptime date_str fmt =
     (case re_matches fmt date_str of
        [] \<Rightarrow> Inl ValueError
      | ((y, m, d), rest) # _ \<Rightarrow> if rest \<noteq> [] then Inl ValueError else new_datetime y m d)"

text \<open>
  The loop of \<open>parse_date\<close> over the formats: the first format that parses wins, a
  \<open>ValueError\<close> moves on to the next format, any other exception would propagate, and
  \<open>None\<close> is returned when the formats are used up.
\<close>

fun parse_date_loop :: "string \<Rightarrow> layout list \<Rightarrow> py_exc + datetime option" where
  "parse_date_loop date_str [] = Inr None"
| "parse_date_loop date_str (fmt # fmts) =
     (case strptime date_str fmt of
        Inr dt \<Rightarrow> Inr (Some dt)
      | Inl ValueError \<Rightarrow> parse_date_loop date_str fmts
      | Inl e \<Rightarrow> Inl e)"

definition parse_date :: "string \<Rightarrow> py_exc + datetime option" where
  "parse_date date_str = parse_date_loop date_str [DMY, YMD]"

section \<open>Event blocks and the document\<close>

text \<open>
  The source opens the input as text and hands the file object to \<open>csv.DictReader\<close>,
  which iterates over its lines. A file object is modelled by the outcomes of its
  successive line reads: \<open>Inr line\<close> (the line with its line ending, as \<open>newline=''\<close>
  keeps it) or \<open>Inl e\<close> when the read raises \<open>e\<close>; after the last outcome the file is
  exhausted. The text layer decodes the file piece by piece while it is read, so a
  read raises \<open>UnicodeDecodeError\<close> when the piece it has to decode holds bytes that the
  encoding does not accept.
\<close>

datatype encoding = UTF8 | CP1252

type_synonym text_stream = "(py_exc + string) list"

text \<open>
  What a run takes from outside: \<open>uuid4 k\<close> is the text of the identifier that the call
  number \<open>k\<close> of \<open>uuid.uuid4()\<close> returns, \<open>now k\<close> the instant that the call number \<open>k\<close> of
  \<open>datetime.now()\<close> returns (calls counted from 0), and \<open>text_lines enc content\<close> the
  line reads of a file with the bytes \<open>content\<close> opened with \<open>encoding=enc\<close> and
  \<open>newline=''\<close>, from its start. \<open>year_text y\<close> is what the platform's \<open>strftime\<close> writes
  for \<open>%Y\<close> and the year \<open>y\<close>: the C library decides whether a year before 1000 is
  padded to four digits. \<open>open_w path\<close> tells whether opening the path for writing
  raises (\<open>None\<close>: the file is opened, and by that emptied), and
  \<open>write_fault path bytes\<close> whether writing the bytes to the opened file raises:
  \<open>Some (x, n)\<close> when it raises \<open>x\<close> after \<open>n\<close> of the bytes have reached the file.
\<close>

record env =
  uuid4 :: "nat \<Rightarrow> string"
  now :: "nat \<Rightarrow> datetime"
  text_lines :: "encoding \<Rightarrow> nat list \<Rightarrow> text_stream"
  year_text :: "nat \<Rightarrow> string"
  open_w :: "string \<Rightarrow> py_exc option"
  write_fault :: "string \<Rightarrow> nat list \<Rightarrow> (py_exc \<times> nat) option"

text \<open>
  \<open>strftime('%Y%m%dT%H%M%S')\<close>: the year as the platform writes it, the other fields
  with two digits each.
\<close>

definition format_ics_date :: "env \<Rightarrow> datetime \<Rightarrow> string" where
  "format_ics_date e dt =
     year_text e (year dt) @ pad2 (month dt) @ pad2 (day dt) @ ''T''
     @ pad2 (hour dt) @ pad2 (minute dt) @ pad2 (second dt)"

definition start_event :: "datetime \<Rightarrow> datetime" where
  "start_event start_date = start_date\<lparr>hour := 9, minute := 0, second := 0\<rparr>"

definition end_event :: "datetime \<Rightarrow> py_exc + datetime" where
  "end_event start_date = add_minutes (start_event start_date) 30"

text \<open>
  \<open>generate_event_block\<close>, as call number \<open>k\<close> of the run: it draws identifier \<open>k\<close> and
  reads the clock for the \<open>k\<close>-th time.
\<close>

definition generate_event_block :: "env \<Rightarrow> nat \<Rightarrow> string \<Rightarrow> datetime \<Rightarrow> py_exc + string list" where
  "generate_event_block e k subject start_date =
     (case end_event start_date of
        Inl x \<Rightarrow> Inl x
      | Inr end_ev \<Rightarrow> Inr
         [''BEGIN:VEVENT'',
          ''UID:'' @ uuid4 e k,
          ''DTSTAMP:'' @ format_ics_date e (now e k),
          ''DTSTART;TZID=America/Sao_Paulo:'' @ format_ics_date e (start_event start_date),
          ''DTEND;TZID=America/Sao_Paulo:'' @ format_ics_date e end_ev,
          ''SUMMARY:'' @ subject,
          ''STATUS:CONFIRMED'',
          ''CLASS:PUBLIC'',
          ''BEGIN:VALARM'',
          ''ACTION:DISPLAY'',
          ''TRIGGER;RELATED=START:-PT15M'',
          ''DESCRIPTION:Lembrete gerado via script CSV'',
          ''END:VALARM'',
          ''END:VEVENT''])"

definition header :: "string list" where
  "header =
     [''BEGIN:VCALENDAR'',
      ''PRODID:-//CSV-to-ICS//Github//PT-BR'',
      ''VERSION:2.0'',
      ''METHOD:PUBLISH'',
      ''X-WR-CALNAME:Eventos Importados'',
      ''BEGIN:VTIMEZONE'',
      ''TZID:America/Sao_Paulo'',
      ''BEGIN:STANDARD'',
      ''DTSTART:16010101T000000'',
      ''TZOFFSETTO:-0300'',
      ''TZOFFSETFROM:-0300'',
      ''TZNAME:-03'',
      ''END:STANDARD'',
      ''END:VTIMEZONE'']"

definition generate_ics_structure :: "string list \<Rightarrow> string list" where
  "generate_ics_structure events_content = header @ events_content @ [''END:VCALENDAR'']"

section \<open>Reading delimited text: \<open>csv.reader\<close> and \<open>csv.DictReader\<close>\<close>

text \<open>
  The parser of \<open>csv.reader\<close> for the dialect the source uses (\<open>excel\<close> with the given
  delimiter: quote character \<open>"\<close>, doubled quotes, no escape character, not strict).
  \<open>parse_process_char\<close> takes \<open>Some c\<close> for a character and \<open>None\<close> for the end of a
  line.
\<close>

datatype pstate =
  START_RECORD | START_FIELD | IN_FIELD | IN_QUOTED_FIELD | QUOTE_IN_QUOTED_FIELD | EAT_CRNL

record parser =
  p_state :: pstate
  p_fields :: "string list"
  p_field :: string

definition parse_reset :: parser where
  "parse_reset = \<lparr>p_state = START_RECORD, p_fields = [], p_field = []\<rparr>"

definition field_limit :: nat where
  "field_limit = 131072"

definition parse_add_char :: "char \<Rightarrow> parser \<Rightarrow> py_exc + parser" where
  "parse_add_char c p =
     (if length (p_field p) \<ge> field_limit then Inl CsvError else Inr (p\<lparr>p_field := p_field p @ [c]\<rparr>))"

definition parse_save_field :: "parser \<Rightarrow> parser" where
  "parse_save_field p = p\<lparr>p_fields := p_fields p @ [p_field p], p_field := []\<rparr>"

definition is_newline :: "char \<Rightarrow> bool" where
  "is_newline c = (c = CHR 0x0A \<or> c = CHR 0x0D)"

definition quotechar :: char where
  "quotechar = CHR 0x22"

definition end_of_field :: "char option \<Rightarrow> parser \<Rightarrow> parser" where
  "end_of_field c p =
     (parse_save_field p)\<lparr>p_state := (if c = None then START_RECORD else EAT_CRNL)\<rparr>"

definition start_field :: "char \<Rightarrow> char option \<Rightarrow> parser \<Rightarrow> py_exc + parser" where
  "start_field delimiter c p =
     (case c of
        None \<Rightarrow> Inr (end_of_field c p)
      | Some ch \<Rightarrow>
          if is_newline ch then Inr (end_of_field c p)
          else if ch = quotechar then Inr (p\<lparr>p_state := IN_QUOTED_FIELD\<rparr>)
          else if ch = delimiter then Inr (parse_save_field p)
          else (case parse_add_char ch p of
                  Inl e \<Rightarrow> Inl e
                | Inr p' \<Rightarrow> Inr (p'\<lparr>p_state := IN_FIELD\<rparr>)))"

fun parse_process_char :: "char \<Rightarrow> char option \<Rightarrow> parser \<Rightarrow> py_exc + parser" where
  "parse_process_char delimiter c p =
     (case p_state p of
        START_RECORD \<Rightarrow>
          (case c of
             None \<Rightarrow> Inr p
           | Some ch \<Rightarrow>
               if is_newline ch then Inr (p\<lparr>p_state := EAT_CRNL\<rparr>)
               else start_field delimiter c (p\<lparr>p_state := START_FIELD\<rparr>))
      | START_FIELD \<Rightarrow> start_field delimiter c p
      | IN_FIELD \<Rightarrow>
          (case c of
             None \<Rightarrow> Inr (end_of_field c p)
           | Some ch \<Rightarrow>
               if is_newline ch then Inr (end_of_field c p)
               else if ch = delimiter then Inr ((parse_save_field p)\<lparr>p_state := START_FIELD\<rparr>)
               else parse_add_char ch p)
      | IN_QUOTED_FIELD \<Rightarrow>
          (case c of
             None \<Rightarrow> Inr p
           | Some ch \<Rightarrow>
               if ch = quotechar then Inr (p\<lparr>p_state := QUOTE_IN_QUOTED_FIELD\<rparr>)
               else parse_add_char ch p)
      | QUOTE_IN_QUOTED_FIELD \<Rightarrow>
          (case c of
             None \<Rightarrow> Inr (end_of_field c p)
           | Some ch \<Rightarrow>
               if ch = quotechar then
                 (case parse_add_char ch p of
                    Inl e \<Rightarrow> Inl e
                  | Inr p' \<Rightarrow> Inr (p'\<lparr>p_state := IN_QUOTED_FIELD\<rparr>))
               else if ch = delimiter then Inr ((parse_save_field p)\<lparr>p_state := START_FIELD\<rparr>)
               else if is_newline ch then Inr (end_of_field c p)
               else (case parse_add_char ch p of
                       Inl e \<Rightarrow> Inl e
                     | Inr p' \<Rightarrow> Inr (p'\<lparr>p_state := IN_FIELD\<rparr>)))
      | EAT_CRNL \<Rightarrow>
          (case c of
             None \<Rightarrow> Inr (p\<lparr>p_state := START_RECORD\<rparr>)
           | Some ch \<Rightarrow> if is_newline ch then Inr p else Inl CsvError))"

text \<open>One line: its characters in turn, then the end of the line.\<close>

fun parse_line :: "char \<Rightarrow> string \<Rightarrow> parser \<Rightarrow> py_exc + parser" where
  "parse_line delimiter [] p = parse_process_char delimiter None p"
| "parse_line delimiter (c # cs) p =
     (case parse_process_char delimiter (Some c) p of
        Inl e \<Rightarrow> Inl e
      | Inr p' \<Rightarrow> parse_line delimiter cs p')"

text \<open>
  Iterating the reader to the end: the records it yields, in order, and the exception
  that ends the iteration, if one does (\<open>None\<close>: the file was exhausted). A record is
  complete when a line ends with the parser back in \<open>START_RECORD\<close>; a file that ends
  inside a quoted field yields the record read so far.
\<close>

fun csv_rows :: "char \<Rightarrow> parser \<Rightarrow> text_stream \<Rightarrow> string list list \<times> py_exc option" where
  "csv_rows delimiter p [] =
     (if p_field p \<noteq> [] \<or> p_state p = IN_QUOTED_FIELD
      then ([p_fields (parse_save_field p)], None) else ([], None))"
| "csv_rows delimiter p (Inl e # rest) = ([], Some e)"
| "csv_rows delimiter p (Inr line # rest) =
     (case parse_line delimiter line p of
        Inl e \<Rightarrow> ([], Some e)
      | Inr p' \<Rightarrow>
          if p_state p' = START_RECORD
          then (case csv_rows delimiter parse_reset rest of (rs, x) \<Rightarrow> (p_fields p' # rs, x))
          else csv_rows delimiter p' rest)"

text \<open>
  \<open>csv.reader(file_obj, delimiter=delimiter)\<close>: the delimiter must be a string of one
  character.
\<close>

definition csv_reader :: "string \<Rightarrow> text_stream \<Rightarrow> py_exc + (string list list \<times> py_exc option)" where
  "csv_reader delimiter lines =
     (case delimiter of
        [c] \<Rightarrow> Inr (csv_rows c parse_reset lines)
      | _ \<Rightarrow> Inl TypeError)"

text \<open>
  Dictionaries keep their keys in insertion order; assigning to a key that is present
  replaces its value in place.
\<close>

fun dict_set :: "'k \<Rightarrow> 'v \<Rightarrow> ('k \<times> 'v) list \<Rightarrow> ('k \<times> 'v) list" where
  "dict_set k v [] = [(k, v)]"
| "dict_set k v ((k', v') # d) = (if k' = k then (k, v) # d else (k', v') # dict_set k v d)"

definition dict_get :: "('k \<times> 'v) list \<Rightarrow> 'k \<Rightarrow> 'v option" where
  "dict_get d k = map_of d k"

text \<open>
  A row as \<open>csv.DictReader\<close> yields it. The keys are the header's names, and \<open>None\<close>
  (\<open>restkey\<close>) for the fields of a record longer than the header; a value is the field's
  text, \<open>None\<close> (\<open>restval\<close>) under a name that a shorter record has no field for, or the
  list of the surplus fields.
\<close>

datatype cell = Str string | NoneVal | Rest "string list"

type_synonym row = "(string option \<times> cell) list"

definition dict_row :: "string list \<Rightarrow> string list \<Rightarrow> row" where
  "dict_row fieldnames r =
     (let d = foldl (\<lambda>d (k, v). dict_set (Some k) (Str v) d) [] (zip fieldnames r);
          lf = length fieldnames;
          lr = length r
      in if lf < lr then dict_set None (Rest (drop lf r)) d
         else if lf > lr then foldl (\<lambda>d key. dict_set (Some key) NoneVal d) d (drop lr fieldnames)
         else d)"

section \<open>The row processor: \<open>process_csv\<close>\<close>

text \<open>
  \<open>{k.strip().lower(): v.strip() for k, v in row.items() if k}\<close>: items with the key
  \<open>None\<close> or the empty key are left out; \<open>v.strip()\<close> raises \<open>AttributeError\<close> when
  the value is not a string.
\<close>

fun clean_items :: "row \<Rightarrow> (string \<times> string) list \<Rightarrow> py_exc + (string \<times> string) list" where
  "clean_items [] acc = Inr acc"
| "clean_items ((None, v) # items) acc = clean_items items acc"
| "clean_items ((Some k, v) # items) acc =
     (if k = [] then clean_items items acc
      else (case v of
              Str s \<Rightarrow> clean_items items (dict_set (lower (strip k)) (strip s) acc)
            | _ \<Rightarrow> Inl AttributeError))"

definition row_clean :: "row \<Rightarrow> py_exc + (string \<times> string) list" where
  "row_clean r = clean_items r []"

text \<open>The messages of the run, by severity and the values they show.\<close>

datatype log_entry =
    Warning_default_subject string
  | Warning_no_date row
  | Error_invalid_date string
  | Info_success nat string
  | Critical_not_found string
  | Critical_error py_exc

text \<open>
  The state of the loop over the rows: the lines accumulated, the count of rows
  accepted, the number of calls of \<open>generate_event_block\<close> made so far, and the messages
  logged.
\<close>

record loop_state =
  ics_events :: "string list"
  processed_count :: nat
  calls :: nat
  log :: "log_entry list"

definition init_state :: loop_state where
  "init_state = \<lparr>ics_events = [], processed_count = 0, calls = 0, log = []\<rparr>"

text \<open>\<open>not x\<close> for a value that is \<open>None\<close> or a string.\<close>

definition falsy :: "string option \<Rightarrow> bool" where
  "falsy x = (case x of None \<Rightarrow> True | Some s \<Rightarrow> s = [])"

definition add_log :: "log_entry \<Rightarrow> loop_state \<Rightarrow> loop_state" where
  "add_log m st = st\<lparr>log := log st @ [m]\<rparr>"

text \<open>The body of the loop for one row (lines 90 to 116).\<close>

definition process_row ::
  "env \<Rightarrow> string \<Rightarrow> string \<Rightarrow> string \<Rightarrow> row \<Rightarrow> loop_state \<Rightarrow> py_exc + loop_state" where
  "process_row e target_col_subj target_col_date default_subject r st =
     (case row_clean r of
        Inl x \<Rightarrow> Inl x
      | Inr rc \<Rightarrow>
          let subject_value =
                (case dict_get rc target_col_subj of
                   None \<Rightarrow> default_subject
                 | Some s \<Rightarrow> if s = [] then default_subject else s);
              st1 = (if falsy (dict_get rc target_col_subj)
                     then add_log (Warning_default_subject default_subject) st else st)
          in (case dict_get rc target_col_date of
                None \<Rightarrow> Inr (add_log (Warning_no_date r) st1)
              | Some date_str \<Rightarrow>
                  if date_str = [] then Inr (add_log (Warning_no_date r) st1)
                  else (case parse_date date_str of
                          Inl x \<Rightarrow> Inl x
                        | Inr None \<Rightarrow> Inr (add_log (Error_invalid_date date_str) st1)
                        | Inr (Some dt_event) \<Rightarrow>
                            (case generate_event_block e (calls st1) subject_value dt_event of
                               Inl x \<Rightarrow> Inl x
                             | Inr block \<Rightarrow>
                                 Inr (st1\<lparr>ics_events := ics_events st1 @ block,
                                          processed_count := processed_count st1 + 1,
                                          calls := calls st1 + 1\<rparr>)))))"

text \<open>
  The loop \<open>for row in reader\<close> over the records after the header: \<open>DictReader\<close> passes
  over empty records; an exception raised in the body ends the loop with the state
  reached before that row.
\<close>

fun rows_loop ::
  "env \<Rightarrow> string \<Rightarrow> string \<Rightarrow> string \<Rightarrow> string list \<Rightarrow> string list list \<Rightarrow> loop_state
   \<Rightarrow> loop_state \<times> py_exc option" where
  "rows_loop e ts td ds fieldnames [] st = (st, None)"
| "rows_loop e ts td ds fieldnames (r # rs) st =
     (if r = [] then rows_loop e ts td ds fieldnames rs st
      else (case process_row e ts td ds (dict_row fieldnames r) st of
              Inl x \<Rightarrow> (st, Some x)
            | Inr st' \<Rightarrow> rows_loop e ts td ds fieldnames rs st'))"

text \<open>
  \<open>next(reader)\<close> on a fresh \<open>DictReader\<close>, as the source calls it to try the first
  encoding: it reads the header and then the first record that is not empty. It raises
  what the reader raises before that record is found, \<open>StopIteration\<close> when the file
  ends first.
\<close>

definition probe :: "string list list \<times> py_exc option \<Rightarrow> py_exc + string list" where
  "probe rd =
     (case rd of (rs, x) \<Rightarrow>
        (case filter (\<lambda>r. r \<noteq> []) (tl rs) of
           r # _ \<Rightarrow> Inr r
         | [] \<Rightarrow> Inl (case x of None \<Rightarrow> StopIteration | Some ex \<Rightarrow> ex)))"

text \<open>
  The file system: the bytes of every file that exists, by path. Opening a path that
  has no file for reading raises \<open>FileNotFoundError\<close>.
\<close>

type_synonym filesystem = "string \<rightharpoonup> nat list"

text \<open>
  Lines 74 to 81: the reader the run goes on with. The reader over the first encoding is
  kept when \<open>next(reader)\<close> returns (the file is rewound and a new reader made); a
  \<open>UnicodeDecodeError\<close> up to there selects the second encoding; every other exception
  leaves the inner \<open>try\<close>.
\<close>

definition open_reader ::
  "env \<Rightarrow> filesystem \<Rightarrow> string \<Rightarrow> string \<Rightarrow> py_exc + (string list list \<times> py_exc option)" where
  "open_reader e fs input_file delimiter =
     (case fs input_file of
        None \<Rightarrow> Inl FileNotFoundError
      | Some content \<Rightarrow>
          (case csv_reader delimiter (text_lines e UTF8 content) of
             Inl x \<Rightarrow> Inl x
           | Inr rd \<Rightarrow>
               (case probe rd of
                  Inr _ \<Rightarrow> Inr rd
                | Inl UnicodeDecodeError \<Rightarrow> csv_reader delimiter (text_lines e CP1252 content)
                | Inl x \<Rightarrow> Inl x)))"

text \<open>
  Lines 83 to 116: the header is read (\<open>reader.fieldnames\<close>), then the loop runs over
  the records after it. The result is the state reached and the exception that left the
  block, if one did.
\<close>

definition read_rows ::
  "env \<Rightarrow> string \<Rightarrow> string \<Rightarrow> string \<Rightarrow> string list list \<times> py_exc option
   \<Rightarrow> loop_state \<times> py_exc option" where
  "read_rows e target_col_subj target_col_date default_subject rd =
     (case rd of (rs, x) \<Rightarrow>
        (case rs of
           [] \<Rightarrow> (init_state, x)
         | fieldnames # records \<Rightarrow>
             (case rows_loop e target_col_subj target_col_date default_subject fieldnames
                     records init_state of
                (st, Some ex) \<Rightarrow> (st, Some ex)
              | (st, None) \<Rightarrow> (st, x))))"

fun join :: "string \<Rightarrow> string list \<Rightarrow> string" where
  "join sep [] = []"
| "join sep [l] = l"
| "join sep (l # l' # ls) = l @ sep @ join sep (l' # ls)"

definition crlf :: string where
  "crlf = [CHR 0x0D, CHR 0x0A]"

text \<open>The bytes of a text in UTF-8 (code points up to U+00FF take one or two bytes).\<close>

definition utf8_encode :: "string \<Rightarrow> nat list" where
  "utf8_encode s =
     concat (map (\<lambda>c. let n = (of_char c :: nat)
                       in if n < 128 then [n] else [192 + n div 64, 128 + n mod 64]) s)"

definition critical :: "string \<Rightarrow> py_exc \<Rightarrow> log_entry" where
  "critical input_file x =
     (if x = FileNotFoundError then Critical_not_found input_file else Critical_error x)"

text \<open>
  Lines 120 and 121: the output file is opened for writing and the text is written to
  it, encoded in UTF-8. The result is the file system afterwards and the exception
  raised, if one is. When the file cannot be opened nothing changes; once it is opened
  it holds what the write has put there, all the bytes or, when the write raises, the
  part written before.
\<close>

definition write_output ::
  "env \<Rightarrow> filesystem \<Rightarrow> string \<Rightarrow> string \<Rightarrow> filesystem \<times> py_exc option" where
  "write_output e fs output_file content =
     (case open_w e output_file of
        Some x \<Rightarrow> (fs, Some x)
      | None \<Rightarrow>
          (case write_fault e output_file (utf8_encode content) of
             Some (x, n) \<Rightarrow> (fs(output_file \<mapsto> take n (utf8_encode content)), Some x)
           | None \<Rightarrow> (fs(output_file \<mapsto> utf8_encode content), None)))"

text \<open>
  \<open>process_csv\<close>: the file system after the run and the messages logged. Both
  \<open>except\<close> clauses log one critical message and end the run; they also catch what
  the write step raises.
\<close>

definition process_csv ::
  "env \<Rightarrow> filesystem \<Rightarrow> string \<Rightarrow> string \<Rightarrow> string \<Rightarrow> string \<Rightarrow> string \<Rightarrow> string
   \<Rightarrow> filesystem \<times> log_entry list" where
  "process_csv e fs input_file output_file delimiter col_subject col_date default_subject =
     (case open_reader e fs input_file delimiter of
        Inl x \<Rightarrow> (fs, [critical input_file x])
      | Inr rd \<Rightarrow>
          (case read_rows e (lower col_subject) (lower col_date) default_subject rd of
             (st, Some x) \<Rightarrow> (fs, log st @ [critical input_file x])
           | (st, None) \<Rightarrow>
               (let full_content = generate_ics_structure (ics_events st)
                in case write_output e fs output_file (join crlf full_content) of
                     (fs', Some x) \<Rightarrow> (fs', log st @ [critical input_file x])
                   | (fs', None) \<Rightarrow>
                       (fs', log st @ [Info_success (processed_count st) output_file]))))"

section \<open>Notions used to state the properties\<close>

text \<open>
  A format matches the full text when the match that the matcher finds ends at the end
  of the text (the test \<open>strptime\<close> makes after matching).
\<close>

definition full_match :: "layout \<Rightarrow> string \<Rightarrow> bool" where
  "full_match fmt s = (case re_matches fmt s of [] \<Rightarrow> False | (_, rest) # _ \<Rightarrow> rest = [])"

text \<open>The lines of the event block that call number \<open>k\<close> of the builder returns.\<close>

definition event_block :: "env \<Rightarrow> nat \<Rightarrow> string \<Rightarrow> datetime \<Rightarrow> string list" where
  "event_block e k subject start_date =
     (case generate_event_block e k subject start_date of Inr b \<Rightarrow> b | Inl _ \<Rightarrow> [])"

text \<open>
  The specification's reading of one normalized row (its section 4.4, step 3): the row
  is accepted when the date column is present, not empty and its text is interpreted as
  a date; the subject is the subject column's value, or the default subject when the
  column is absent or empty. \<open>Some (subject, date)\<close> is an accepted row, \<open>None\<close> a
  skipped one.
\<close>

definition spec_row ::
  "string \<Rightarrow> string \<Rightarrow> string \<Rightarrow> (string \<times> string) list \<Rightarrow> (string \<times> datetime) option" where
  "spec_row subject_column date_column default_subject rc =
     (case dict_get rc date_column of
        None \<Rightarrow> None
      | Some date_text \<Rightarrow>
          if date_text = [] then None
          else (case parse_date date_text of
                  Inr (Some d) \<Rightarrow>
                    Some (if falsy (dict_get rc subject_column) then default_subject
                          else the (dict_get rc subject_column), d)
                | _ \<Rightarrow> None))"

text \<open>
  The accepted rows of the records after the header, in the order of the input, and the
  event blocks of a sequence of accepted rows, the first built by call number \<open>k\<close>.
\<close>

definition spec_accepted ::
  "string \<Rightarrow> string \<Rightarrow> string \<Rightarrow> string list \<Rightarrow> string list list \<Rightarrow> (string \<times> datetime) list" where
  "spec_accepted subject_column date_column default_subject fieldnames records =
     List.map_filter
       (\<lambda>r. case row_clean (dict_row fieldnames r) of
               Inr rc \<Rightarrow> spec_row subject_column date_column default_subject rc
             | Inl _ \<Rightarrow> None)
       (filter (\<lambda>r. r \<noteq> []) records)"

fun spec_blocks :: "env \<Rightarrow> nat \<Rightarrow> (string \<times> datetime) list \<Rightarrow> string list list" where
  "spec_blocks e k [] = []"
| "spec_blocks e k ((subject, d) # rest) = event_block e k subject d # spec_blocks e (Suc k) rest"

text \<open>A run ended by one of the two \<open>except\<close> clauses logs a critical message last.\<close>

definition fatal :: "log_entry list \<Rightarrow> bool" where
  "fatal lg =
     (case rev lg of
        Critical_not_found _ # _ \<Rightarrow> True
      | Critical_error _ # _ \<Rightarrow> True
      | _ \<Rightarrow> False)"

text \<open>
  An environment for the examples: identifier number \<open>k\<close> is a run of \<open>k + 1\<close> letters,
  the clock stands still, every file reads as the lines \<open>u\<close> under UTF-8 and as the
  lines \<open>c\<close> under cp1252, the year is written without padding, and every path can be
  opened and written.
\<close>

definition example_env :: "text_stream \<Rightarrow> text_stream \<Rightarrow> env" where
  "example_env u c =
     \<lparr>uuid4 = (\<lambda>k. replicate (Suc k) CHR ''u''),
      now = (\<lambda>k. \<lparr>year = 2026, month = 11, day = 3, hour = 10, minute = 20, second = 30,
                    microsecond = 0\<rparr>),
      text_lines = (\<lambda>enc content. case enc of UTF8 \<Rightarrow> u | CP1252 \<Rightarrow> c),
      year_text = decimal,
      open_w = (\<lambda>path. None),
      write_fault = (\<lambda>path bytes. None)\<rparr>"

text \<open>
  A file system with one file, the input. Its bytes play no part: the environment of
  the examples fixes how the file reads.
\<close>

definition example_fs :: filesystem where
  "example_fs = [''eventos.csv'' \<mapsto> []]"

text \<open>
  The line reads of the example inputs: the scenario of four rows; an input whose
  second record has one field only; an input whose third line does not decode as UTF-8,
  read under UTF-8 and under cp1252 (where the byte is the letter U+00E3), and the same
  with the second line failing; an input whose subject is a quoted field with a line
  break inside.
\<close>

definition scenario_lines :: text_stream where
  "scenario_lines =
     [Inr (''Assunto;Data'' @ crlf), Inr (''Dentist;20/05/2024'' @ crlf),
      Inr ('';21/05/2024'' @ crlf), Inr (''X;'' @ crlf), Inr (''Y;bad-date'' @ crlf)]"

definition short_row_lines :: text_stream where
  "short_row_lines =
     [Inr (''Assunto;Data'' @ crlf), Inr (''Dentist;20/05/2024'' @ crlf), Inr (''Solo'' @ crlf)]"

definition late_error_utf8 :: text_stream where
  "late_error_utf8 =
     [Inr (''Assunto;Data'' @ crlf), Inr (''Dentist;20/05/2024'' @ crlf),
      Inl UnicodeDecodeError]"

definition late_error_cp1252 :: text_stream where
  "late_error_cp1252 =
     [Inr (''Assunto;Data'' @ crlf), Inr (''Dentist;20/05/2024'' @ crlf),
      Inr (''Reuni'' @ [CHR 0xE3] @ ''o;21/05/2024'' @ crlf)]"

definition early_error_utf8 :: text_stream where
  "early_error_utf8 = [Inr (''Assunto;Data'' @ crlf), Inl UnicodeDecodeError]"

definition early_error_cp1252 :: text_stream where
  "early_error_cp1252 =
     [Inr (''Assunto;Data'' @ crlf), Inr (''Reuni'' @ [CHR 0xE3] @ ''o;21/05/2024'' @ crlf)]"

definition quoted_break_lines :: text_stream where
  "quoted_break_lines =
     [Inr (''Assunto;Data'' @ crlf),
      Inr ([CHR 0x22] @ ''Reuniao'' @ [CHR 0x0A]),
      Inr (''geral'' @ [CHR 0x22] @ '';20/05/2024'' @ crlf)]"

section \<open>Facts about the date functions\<close>

lemma end_event_value: "end_event dt = Inr ((start_event dt)\<lparr>minute := 30\<rparr>)"
  by (simp add: end_event_def add_minutes_def start_event_def)

lemma new_datetime_error: "new_datetime y m d = Inl x \<Longrightarrow> x = ValueError"
  by (simp add: new_datetime_def split: if_splits)

lemma strptime_error: "strptime s fmt = Inl x \<Longrightarrow> x = ValueError"
  by (auto simp: strptime_def dest: new_datetime_error split: list.splits if_splits)

lemma new_datetime_midnight:
  "new_datetime y m d = Inr dt \<Longrightarrow>
     dt = \<lparr>year = y, month = m, day = d, hour = 0, minute = 0, second = 0, microsecond = 0\<rparr>
     \<and> 1 \<le> y \<and> y \<le> 9999 \<and> 1 \<le> m \<and> m \<le> 12 \<and> 1 \<le> d \<and> d \<le> days_in_month y m"
  by (simp add: new_datetime_def split: if_splits)

lemma strptime_midnight:
  "strptime s fmt = Inr dt \<Longrightarrow>
     hour dt = 0 \<and> minute dt = 0 \<and> second dt = 0 \<and> microsecond dt = 0
     \<and> 1 \<le> year dt \<and> year dt \<le> 9999 \<and> 1 \<le> month dt \<and> month dt \<le> 12
     \<and> 1 \<le> day dt \<and> day dt \<le> days_in_month (year dt) (month dt)"
  by (auto simp: strptime_def dest!: new_datetime_midnight split: list.splits if_splits)

lemma parse_date_cases:
  "parse_date s =
     (case strptime s DMY of
        Inr dt \<Rightarrow> Inr (Some dt)
      | Inl _ \<Rightarrow> (case strptime s YMD of Inr dt \<Rightarrow> Inr (Some dt) | Inl _ \<Rightarrow> Inr None))"
  by (auto simp: parse_date_def dest: strptime_error split: sum.splits py_exc.splits)

lemma parse_date_total: "\<exists>r. parse_date s = Inr r"
  by (simp add: parse_date_cases split: sum.splits)

lemma parse_date_midnight:
  "parse_date s = Inr (Some dt) \<Longrightarrow>
     hour dt = 0 \<and> minute dt = 0 \<and> second dt = 0 \<and> microsecond dt = 0
     \<and> 1 \<le> year dt \<and> year dt \<le> 9999 \<and> 1 \<le> month dt \<and> month dt \<le> 12
     \<and> 1 \<le> day dt \<and> day dt \<le> days_in_month (year dt) (month dt)"
  unfolding parse_date_cases
  by (auto split: sum.splits dest: strptime_midnight)

lemma strptime_no_full_match: "\<not> full_match fmt s \<Longrightarrow> strptime s fmt = Inl ValueError"
  by (auto simp: full_match_def strptime_def split: list.splits)

lemmas parse_defs = parse_date_def strptime_def re_d_def re_m_def re_Y_def re_lit_def
  is_digit_def digit_val_def new_datetime_def days_in_month_def is_leap_def

lemma parse_date_dmy_example:
  "parse_date ''15/03/2024'' =
     Inr (Some \<lparr>year = 2024, month = 3, day = 15, hour = 0, minute = 0, second = 0,
                microsecond = 0\<rparr>)"
  by (simp add: parse_defs)

lemma parse_date_ymd_example:
  "parse_date ''2024-03-15'' =
     Inr (Some \<lparr>year = 2024, month = 3, day = 15, hour = 0, minute = 0, second = 0,
                microsecond = 0\<rparr>)"
  by (simp add: parse_defs)

lemma parse_date_bad_example: "parse_date ''not-a-date'' = Inr None"
  by (simp add: parse_defs)

lemma decimal_999: "decimal 999 = ''999''"
  by code_simp

lemma generate_event_block_value:
  "generate_event_block e k subject dt = Inr
     [''BEGIN:VEVENT'',
      ''UID:'' @ uuid4 e k,
      ''DTSTAMP:'' @ format_ics_date e (now e k),
      ''DTSTART;TZID=America/Sao_Paulo:'' @ format_ics_date e (start_event dt),
      ''DTEND;TZID=America/Sao_Paulo:'' @ format_ics_date e ((start_event dt)\<lparr>minute := 30\<rparr>),
      ''SUMMARY:'' @ subject,
      ''STATUS:CONFIRMED'',
      ''CLASS:PUBLIC'',
      ''BEGIN:VALARM'',
      ''ACTION:DISPLAY'',
      ''TRIGGER;RELATED=START:-PT15M'',
      ''DESCRIPTION:Lembrete gerado via script CSV'',
      ''END:VALARM'',
      ''END:VEVENT'']"
  by (simp add: generate_event_block_def end_event_value)

lemma format_start_event:
  "format_ics_date e (start_event dt) =
     year_text e (year dt) @ pad2 (month dt) @ pad2 (day dt) @ ''T090000''"
  by (simp add: format_ics_date_def start_event_def pad2_def digit_char_def)

lemma format_end_event:
  "format_ics_date e ((start_event dt)\<lparr>minute := 30\<rparr>) =
     year_text e (year dt) @ pad2 (month dt) @ pad2 (day dt) @ ''T093000''"
  by (simp add: format_ics_date_def start_event_def pad2_def digit_char_def)

section \<open>Facts about the loop over the rows\<close>

lemma event_block_value:
  "event_block e k subject dt =
     [''BEGIN:VEVENT'',
      ''UID:'' @ uuid4 e k,
      ''DTSTAMP:'' @ format_ics_date e (now e k),
      ''DTSTART;TZID=America/Sao_Paulo:'' @ format_ics_date e (start_event dt),
      ''DTEND;TZID=America/Sao_Paulo:'' @ format_ics_date e ((start_event dt)\<lparr>minute := 30\<rparr>),
      ''SUMMARY:'' @ subject,
      ''STATUS:CONFIRMED'',
      ''CLASS:PUBLIC'',
      ''BEGIN:VALARM'',
      ''ACTION:DISPLAY'',
      ''TRIGGER;RELATED=START:-PT15M'',
      ''DESCRIPTION:Lembrete gerado via script CSV'',
      ''END:VALARM'',
      ''END:VEVENT'']"
  by (simp add: event_block_def generate_event_block_value)

lemma generate_event_block_event_block:
  "generate_event_block e k subject dt = Inr (event_block e k subject dt)"
  by (simp add: event_block_def generate_event_block_value)


lemma process_row_raises: "row_clean r = Inl x \<Longrightarrow> process_row e ts td ds r st = Inl x"
  by (simp add: process_row_def)

lemma process_row_skipped:
  assumes "row_clean r = Inr rc" and "spec_row ts td ds rc = None"
  shows "\<exists>st'. process_row e ts td ds r st = Inr st' \<and> ics_events st' = ics_events st
           \<and> processed_count st' = processed_count st \<and> calls st' = calls st"
proof -
  obtain res where res: "\<And>s. parse_date s = Inr (res s)"
    using parse_date_total by metis
  show ?thesis
    using assms
    by (auto simp: process_row_def spec_row_def Let_def add_log_def res
        split: option.splits if_splits)
qed

lemma process_row_accepted:
  assumes "row_clean r = Inr rc" and "spec_row ts td ds rc = Some (subject, d)"
  shows "\<exists>st'. process_row e ts td ds r st = Inr st'
           \<and> ics_events st' = ics_events st @ event_block e (calls st) subject d
           \<and> processed_count st' = Suc (processed_count st) \<and> calls st' = Suc (calls st)"
  using assms
  by (auto simp: process_row_def spec_row_def Let_def add_log_def falsy_def
      generate_event_block_event_block
      split: option.splits if_splits sum.splits)

lemma spec_blocks_append:
  "spec_blocks e k (a @ b) = spec_blocks e k a @ spec_blocks e (k + length a) b"
  by (induction a arbitrary: k) auto

lemma length_spec_blocks: "length (spec_blocks e k a) = length a"
  by (induction a arbitrary: k) auto


lemma spec_accepted_Nil: "spec_accepted ts td ds fn [] = []"
  by (simp add: spec_accepted_def map_filter_simps)

lemma spec_accepted_empty: "spec_accepted ts td ds fn ([] # rs) = spec_accepted ts td ds fn rs"
  by (simp add: spec_accepted_def)

lemma spec_accepted_Cons:
  "r \<noteq> [] \<Longrightarrow> row_clean (dict_row fn r) = Inr rc \<Longrightarrow>
     spec_accepted ts td ds fn (r # rs) =
       (case spec_row ts td ds rc of None \<Rightarrow> [] | Some sd \<Rightarrow> [sd]) @ spec_accepted ts td ds fn rs"
  by (simp add: spec_accepted_def map_filter_simps split: option.splits)

lemma rows_loop_blocks:
  "rows_loop e ts td ds fn records st = (st', x) \<Longrightarrow>
     \<exists>acc. ics_events st' = ics_events st @ concat (spec_blocks e (calls st) acc)
       \<and> processed_count st' = processed_count st + length acc
       \<and> calls st' = calls st + length acc
       \<and> (x = None \<longrightarrow> acc = spec_accepted ts td ds fn records)"
proof (induction records arbitrary: st)
  case Nil
  then show ?case by (simp add: spec_accepted_Nil)
next
  case (Cons r rs)
  show ?case
  proof (cases "r = []")
    case True
    with Cons.prems have "rows_loop e ts td ds fn rs st = (st', x)" by simp
    from Cons.IH [OF this] True show ?thesis by (simp add: spec_accepted_empty)
  next
    case False
    show ?thesis
    proof (cases "row_clean (dict_row fn r)")
      case (Inl ex)
      with False Cons.prems have "st' = st" "x = Some ex"
        by (simp_all add: process_row_raises)
      then have "ics_events st' = ics_events st @ concat (spec_blocks e (calls st) [])
          \<and> processed_count st' = processed_count st + length ([] :: (string \<times> datetime) list)
          \<and> calls st' = calls st + length ([] :: (string \<times> datetime) list)
          \<and> (x = None \<longrightarrow> [] = spec_accepted ts td ds fn (r # rs))"
        by simp
      then show ?thesis by blast
    next
      case (Inr rc)
      show ?thesis
      proof (cases "spec_row ts td ds rc")
        case None
        from process_row_skipped [OF Inr None, of e st] obtain st1 where
          st1: "process_row e ts td ds (dict_row fn r) st = Inr st1"
            "ics_events st1 = ics_events st" "processed_count st1 = processed_count st"
            "calls st1 = calls st"
          by blast
        with False Cons.prems have "rows_loop e ts td ds fn rs st1 = (st', x)" by simp
        from Cons.IH [OF this] obtain acc where
          "ics_events st' = ics_events st1 @ concat (spec_blocks e (calls st1) acc)"
          "processed_count st' = processed_count st1 + length acc"
          "calls st' = calls st1 + length acc"
          "x = None \<longrightarrow> acc = spec_accepted ts td ds fn rs"
          by blast
        with st1 None have "ics_events st' = ics_events st @ concat (spec_blocks e (calls st) acc)
          \<and> processed_count st' = processed_count st + length acc
          \<and> calls st' = calls st + length acc
          \<and> (x = None \<longrightarrow> acc = spec_accepted ts td ds fn (r # rs))"
          by (simp add: spec_accepted_Cons [OF False Inr])
        then show ?thesis by blast
      next
        case (Some sd)
        obtain subject d where sd: "sd = (subject, d)" by (cases sd)
        from process_row_accepted [OF Inr Some [unfolded sd], of e st] obtain st1 where
          st1: "process_row e ts td ds (dict_row fn r) st = Inr st1"
            "ics_events st1 = ics_events st @ event_block e (calls st) subject d"
            "processed_count st1 = Suc (processed_count st)"
            "calls st1 = Suc (calls st)"
          by blast
        with False Cons.prems have "rows_loop e ts td ds fn rs st1 = (st', x)" by simp
        from Cons.IH [OF this] obtain acc where
          "ics_events st' = ics_events st1 @ concat (spec_blocks e (calls st1) acc)"
          "processed_count st' = processed_count st1 + length acc"
          "calls st' = calls st1 + length acc"
          "x = None \<longrightarrow> acc = spec_accepted ts td ds fn rs"
          by blast
        with st1 Some sd have
          "ics_events st' = ics_events st @ concat (spec_blocks e (calls st) (sd # acc))
          \<and> processed_count st' = processed_count st + length (sd # acc)
          \<and> calls st' = calls st + length (sd # acc)
          \<and> (x = None \<longrightarrow> sd # acc = spec_accepted ts td ds fn (r # rs))"
          by (simp add: spec_accepted_Cons [OF False Inr])
        then show ?thesis by blast
      qed
    qed
  qed
qed





section \<open>The event window\<close>

text \<open>
  C1. Whatever time of day the start date carries, the start of the event has hour 9,
  minute 0 and second 0 on the same calendar date, and the end of the event is computed
  without error as the same date at 09:30:00, that is the start plus 30 minutes. For a
  valid row, whose date is the result of \<open>parse_date\<close>, the start is exactly 09:00:00
  (no fraction of a second) and the block built from it shows the start as the date
  followed by \<open>T090000\<close> and the end as the date followed by \<open>T093000\<close>, the date
  being the year as the platform writes it and two digits each for month and day.
\<close>

theorem event_window:
  "hour (start_event d) = 9 \<and> minute (start_event d) = 0 \<and> second (start_event d) = 0
   \<and> year (start_event d) = year d \<and> month (start_event d) = month d
   \<and> day (start_event d) = day d
   \<and> end_event d = Inr ((start_event d)\<lparr>minute := 30\<rparr>)
   \<and> (parse_date date_str = Inr (Some dt) \<longrightarrow>
        start_event dt =
          \<lparr>year = year dt, month = month dt, day = day dt, hour = 9, minute = 0, second = 0,
           microsecond = 0\<rparr>
        \<and> end_event dt =
          Inr \<lparr>year = year dt, month = month dt, day = day dt, hour = 9, minute = 30, second = 0,
               microsecond = 0\<rparr>
        \<and> (\<exists>b. generate_event_block e k subject dt = Inr b
             \<and> b ! 3 = ''DTSTART;TZID=America/Sao_Paulo:''
                        @ year_text e (year dt) @ pad2 (month dt) @ pad2 (day dt) @ ''T090000''
             \<and> b ! 4 = ''DTEND;TZID=America/Sao_Paulo:''
                        @ year_text e (year dt) @ pad2 (month dt) @ pad2 (day dt) @ ''T093000''))"
proof -
  have general:
    "hour (start_event d) = 9 \<and> minute (start_event d) = 0 \<and> second (start_event d) = 0
     \<and> year (start_event d) = year d \<and> month (start_event d) = month d
     \<and> day (start_event d) = day d"
    by (simp add: start_event_def)
  have valid_row:
    "start_event dt =
       \<lparr>year = year dt, month = month dt, day = day dt, hour = 9, minute = 0, second = 0,
        microsecond = 0\<rparr>
     \<and> end_event dt =
       Inr \<lparr>year = year dt, month = month dt, day = day dt, hour = 9, minute = 30, second = 0,
            microsecond = 0\<rparr>"
    if "parse_date date_str = Inr (Some dt)"
  proof -
    from that have "microsecond dt = 0"
      by (simp add: parse_date_midnight)
    then show ?thesis
      by (simp add: end_event_value start_event_def)
  qed
  have block:
    "\<exists>b. generate_event_block e k subject dt = Inr b
       \<and> b ! 3 = ''DTSTART;TZID=America/Sao_Paulo:''
                  @ year_text e (year dt) @ pad2 (month dt) @ pad2 (day dt) @ ''T090000''
       \<and> b ! 4 = ''DTEND;TZID=America/Sao_Paulo:''
                  @ year_text e (year dt) @ pad2 (month dt) @ pad2 (day dt) @ ''T093000''"
    by (simp add: generate_event_block_value format_start_event format_end_event)
  from general valid_row block show ?thesis
    by (simp add: end_event_value)
qed

theorem event_window_witness:
  "parse_date ''15/03/2024'' =
     Inr (Some \<lparr>year = 2024, month = 3, day = 15, hour = 0, minute = 0, second = 0,
                microsecond = 0\<rparr>)
   \<and> start_event \<lparr>year = 2024, month = 3, day = 15, hour = 0, minute = 0, second = 0,
                  microsecond = 0\<rparr> =
       \<lparr>year = 2024, month = 3, day = 15, hour = 9, minute = 0, second = 0, microsecond = 0\<rparr>
   \<and> end_event \<lparr>year = 2024, month = 3, day = 15, hour = 0, minute = 0, second = 0,
                microsecond = 0\<rparr> =
       Inr \<lparr>year = 2024, month = 3, day = 15, hour = 9, minute = 30, second = 0,
            microsecond = 0\<rparr>
   \<and> hour (start_event \<lparr>year = 2024, month = 3, day = 15, hour = 23, minute = 59,
                         second = 58, microsecond = 7\<rparr>) = 9
   \<and> parse_date ''09/09/0999'' =
     Inr (Some \<lparr>year = 999, month = 9, day = 9, hour = 0, minute = 0, second = 0,
                microsecond = 0\<rparr>)
   \<and> (\<exists>b. generate_event_block (example_env [] []) 0 ''Dentist''
              \<lparr>year = 999, month = 9, day = 9, hour = 0, minute = 0, second = 0,
               microsecond = 0\<rparr> = Inr b
          \<and> b ! 3 = ''DTSTART;TZID=America/Sao_Paulo:9990909T090000''
          \<and> b ! 4 = ''DTEND;TZID=America/Sao_Paulo:9990909T093000'')"
proof -
  have old_year: "parse_date ''09/09/0999'' =
     Inr (Some \<lparr>year = 999, month = 9, day = 9, hour = 0, minute = 0, second = 0,
                microsecond = 0\<rparr>)"
    by (simp add: parse_defs)
  have digits: "year_text (example_env [] []) 999 = ''999''" "pad2 9 = ''09''"
    by (simp_all add: example_env_def decimal_999 pad2_def digit_char_def)
  from event_window [of
      "\<lparr>year = 2024, month = 3, day = 15, hour = 23, minute = 59, second = 58, microsecond = 7\<rparr>"
      "''15/03/2024''"
      "\<lparr>year = 2024, month = 3, day = 15, hour = 0, minute = 0, second = 0, microsecond = 0\<rparr>"]
    parse_date_dmy_example
  have recent: "start_event \<lparr>year = 2024, month = 3, day = 15, hour = 0, minute = 0,
                  second = 0, microsecond = 0\<rparr> =
       \<lparr>year = 2024, month = 3, day = 15, hour = 9, minute = 0, second = 0, microsecond = 0\<rparr>
   \<and> end_event \<lparr>year = 2024, month = 3, day = 15, hour = 0, minute = 0, second = 0,
                microsecond = 0\<rparr> =
       Inr \<lparr>year = 2024, month = 3, day = 15, hour = 9, minute = 30, second = 0,
            microsecond = 0\<rparr>
   \<and> hour (start_event \<lparr>year = 2024, month = 3, day = 15, hour = 23, minute = 59,
                         second = 58, microsecond = 7\<rparr>) = 9"
    by simp
  from event_window [of
      "\<lparr>year = 999, month = 9, day = 9, hour = 0, minute = 0, second = 0, microsecond = 0\<rparr>"
      "''09/09/0999''"
      "\<lparr>year = 999, month = 9, day = 9, hour = 0, minute = 0, second = 0, microsecond = 0\<rparr>"
      "example_env [] []" 0 "''Dentist''"]
    old_year digits
  have "\<exists>b. generate_event_block (example_env [] []) 0 ''Dentist''
              \<lparr>year = 999, month = 9, day = 9, hour = 0, minute = 0, second = 0,
               microsecond = 0\<rparr> = Inr b
          \<and> b ! 3 = ''DTSTART;TZID=America/Sao_Paulo:9990909T090000''
          \<and> b ! 4 = ''DTEND;TZID=America/Sao_Paulo:9990909T093000''"
    by simp
  with recent old_year parse_date_dmy_example show ?thesis
    by blast
qed

section \<open>Date interpretation\<close>

text \<open>
  C2. \<open>parse_date\<close> returns for every text, and never raises: its result is an optional
  instant. It tries the day/month/year format first and the year-month-day format
  second: a date parsed by the first format is the result, and otherwise the result is
  what the second format gives, \<open>None\<close> when that fails too. When neither format matches
  the full text the result is \<open>None\<close>. The texts \<open>15/03/2024\<close> and \<open>2024-03-15\<close> both give
  15 March 2024 (at midnight), and \<open>not-a-date\<close> gives \<open>None\<close>.
\<close>

theorem parse_date_total_ordered:
  "(\<exists>r. parse_date s = Inr r)
   \<and> (\<forall>dt. strptime s DMY = Inr dt \<longrightarrow> parse_date s = Inr (Some dt))
   \<and> (\<forall>x. strptime s DMY = Inl x \<longrightarrow>
        parse_date s = (case strptime s YMD of Inr dt \<Rightarrow> Inr (Some dt) | Inl _ \<Rightarrow> Inr None))
   \<and> (\<not> full_match DMY s \<and> \<not> full_match YMD s \<longrightarrow> parse_date s = Inr None)
   \<and> parse_date ''15/03/2024'' =
       Inr (Some \<lparr>year = 2024, month = 3, day = 15, hour = 0, minute = 0, second = 0,
                  microsecond = 0\<rparr>)
   \<and> parse_date ''2024-03-15'' = parse_date ''15/03/2024''
   \<and> parse_date ''not-a-date'' = Inr None"
proof -
  have neither: "parse_date s = Inr None" if "\<not> full_match DMY s" "\<not> full_match YMD s"
    using that by (simp add: parse_date_cases strptime_no_full_match)
  have first: "parse_date s = Inr (Some dt)" if "strptime s DMY = Inr dt" for dt
    using that by (simp add: parse_date_cases)
  have second:
    "parse_date s = (case strptime s YMD of Inr dt \<Rightarrow> Inr (Some dt) | Inl _ \<Rightarrow> Inr None)"
    if "strptime s DMY = Inl x" for x
    using that by (simp add: parse_date_cases)
  from parse_date_total [of s] first second neither show ?thesis
    by (simp add: parse_date_dmy_example parse_date_ymd_example parse_date_bad_example)
qed

theorem parse_date_total_ordered_witness:
  "\<not> full_match DMY ''not-a-date'' \<and> \<not> full_match YMD ''not-a-date''
   \<and> parse_date ''not-a-date'' = Inr None
   \<and> strptime ''2024-03-15'' DMY = Inl ValueError
   \<and> parse_date ''2024-03-15'' =
       (case strptime ''2024-03-15'' YMD of Inr dt \<Rightarrow> Inr (Some dt) | Inl _ \<Rightarrow> Inr None)"
  using parse_date_total_ordered [of "''not-a-date''"] parse_date_total_ordered [of "''2024-03-15''"]
  by (simp add: full_match_def parse_defs)

section \<open>Evaluating the example inputs\<close>

lemmas csv_defs = csv_reader_def parse_reset_def parse_save_field_def parse_add_char_def
  start_field_def end_of_field_def is_newline_def quotechar_def field_limit_def crlf_def

lemma lower_default_columns: "lower ''Assunto'' = ''assunto''" "lower ''Data'' = ''data''"
  by code_simp+

lemma scenario_rows_clean:
  "row_clean [(Some ''Assunto'', Str ''Dentist''), (Some ''Data'', Str ''20/05/2024'')] =
     Inr [(''assunto'', ''Dentist''), (''data'', ''20/05/2024'')]"
  "row_clean [(Some ''Assunto'', Str []), (Some ''Data'', Str ''21/05/2024'')] =
     Inr [(''assunto'', []), (''data'', ''21/05/2024'')]"
  "row_clean [(Some ''Assunto'', Str ''X''), (Some ''Data'', Str [])] =
     Inr [(''assunto'', ''X''), (''data'', [])]"
  "row_clean [(Some ''Assunto'', Str ''Y''), (Some ''Data'', Str ''bad-date'')] =
     Inr [(''assunto'', ''Y''), (''data'', ''bad-date'')]"
  by code_simp+

lemma scenario_dates:
  "parse_date ''20/05/2024'' =
     Inr (Some \<lparr>year = 2024, month = 5, day = 20, hour = 0, minute = 0, second = 0,
                microsecond = 0\<rparr>)"
  "parse_date ''21/05/2024'' =
     Inr (Some \<lparr>year = 2024, month = 5, day = 21, hour = 0, minute = 0, second = 0,
                microsecond = 0\<rparr>)"
  "parse_date ''bad-date'' = Inr None"
  by (simp_all add: parse_defs)

lemma scenario_read_rows:
  "read_rows e ''assunto'' ''data'' ''Evento Importado''
     ([[''Assunto'', ''Data''], [''Dentist'', ''20/05/2024''], [[], ''21/05/2024''],
       [''X'', []], [''Y'', ''bad-date'']], None) =
   (\<lparr>ics_events =
        event_block e 0 ''Dentist''
          \<lparr>year = 2024, month = 5, day = 20, hour = 0, minute = 0, second = 0, microsecond = 0\<rparr>
        @ event_block e 1 ''Evento Importado''
          \<lparr>year = 2024, month = 5, day = 21, hour = 0, minute = 0, second = 0, microsecond = 0\<rparr>,
      processed_count = 2, calls = 2,
      log = [Warning_default_subject ''Evento Importado'',
             Warning_no_date [(Some ''Assunto'', Str ''X''), (Some ''Data'', Str [])],
             Error_invalid_date ''bad-date'']\<rparr>, None)"
  by (simp add: read_rows_def process_row_def scenario_rows_clean scenario_dates dict_get_def
      falsy_def add_log_def init_state_def generate_event_block_event_block dict_row_def)

lemma scenario_lines_records:
  "csv_reader '';'' scenario_lines =
   Inr ([[''Assunto'', ''Data''], [''Dentist'', ''20/05/2024''], [[], ''21/05/2024''],
         [''X'', []], [''Y'', ''bad-date'']], None)"
  by (simp add: scenario_lines_def csv_defs)

lemma scenario_probe:
  "probe ([[''Assunto'', ''Data''], [''Dentist'', ''20/05/2024''], [[], ''21/05/2024''],
         [''X'', []], [''Y'', ''bad-date'']], None) = Inr [''Dentist'', ''20/05/2024'']"
  by (simp add: probe_def)

lemma short_row_records:
  "csv_reader '';'' short_row_lines =
   Inr ([[''Assunto'', ''Data''], [''Dentist'', ''20/05/2024''], [''Solo'']], None)"
  by (simp add: short_row_lines_def csv_defs)

lemma short_row_clean:
  "row_clean [(Some ''Assunto'', Str ''Solo''), (Some ''Data'', NoneVal)] = Inl AttributeError"
  by code_simp

lemma short_row_dict:
  "dict_row [''Assunto'', ''Data''] [''Solo''] =
      [(Some ''Assunto'', Str ''Solo''), (Some ''Data'', NoneVal)]"
  by (simp add: dict_row_def)

lemma short_row_raises:
  "process_row e ''assunto'' ''data'' ''Evento Importado''
     [(Some ''Assunto'', Str ''Solo''), (Some ''Data'', NoneVal)] st = Inl AttributeError"
  by (simp add: process_row_raises short_row_clean)

lemma first_row_accepted:
  "process_row e ''assunto'' ''data'' ''Evento Importado''
     [(Some ''Assunto'', Str ''Dentist''), (Some ''Data'', Str ''20/05/2024'')] init_state =
   Inr \<lparr>ics_events = event_block e 0 ''Dentist''
          \<lparr>year = 2024, month = 5, day = 20, hour = 0, minute = 0, second = 0, microsecond = 0\<rparr>,
        processed_count = 1, calls = 1, log = []\<rparr>"
  by (simp add: process_row_def scenario_rows_clean scenario_dates dict_get_def
      falsy_def add_log_def init_state_def generate_event_block_event_block)

lemma late_error_records:
  "csv_reader '';'' late_error_utf8 =
     Inr ([[''Assunto'', ''Data''], [''Dentist'', ''20/05/2024'']], Some UnicodeDecodeError)"
  by (simp add: late_error_utf8_def csv_defs)

lemma early_error_records:
  "csv_reader '';'' early_error_utf8 = Inr ([[''Assunto'', ''Data'']], Some UnicodeDecodeError)"
  "csv_reader '';'' early_error_cp1252 =
     Inr ([[''Assunto'', ''Data''], [''Reuni'' @ [CHR 0xE3] @ ''o'', ''21/05/2024'']], None)"
  by (simp_all add: early_error_utf8_def early_error_cp1252_def csv_defs)

lemma fallback_row_clean:
  "row_clean [(Some ''Assunto'', Str (''Reuni'' @ [CHR 0xE3] @ ''o'')),
              (Some ''Data'', Str ''21/05/2024'')] =
     Inr [(''assunto'', ''Reuni'' @ [CHR 0xE3] @ ''o''), (''data'', ''21/05/2024'')]"
  by code_simp

lemma fallback_row_accepted:
  "process_row e ''assunto'' ''data'' ''Evento Importado''
     [(Some ''Assunto'', Str (''Reuni'' @ [CHR 0xE3] @ ''o'')),
      (Some ''Data'', Str ''21/05/2024'')] init_state =
   Inr \<lparr>ics_events = event_block e 0 (''Reuni'' @ [CHR 0xE3] @ ''o'')
          \<lparr>year = 2024, month = 5, day = 21, hour = 0, minute = 0, second = 0, microsecond = 0\<rparr>,
        processed_count = 1, calls = 1, log = []\<rparr>"
  using fallback_row_clean
  by (simp add: process_row_def scenario_dates dict_get_def
      falsy_def add_log_def init_state_def generate_event_block_event_block)

lemma quoted_break_records:
  "csv_reader '';'' quoted_break_lines =
     Inr ([[''Assunto'', ''Data''], [''Reuniao'' @ [CHR 0x0A] @ ''geral'', ''20/05/2024'']], None)"
  by (simp add: quoted_break_lines_def csv_defs)

lemma quoted_break_clean:
  "row_clean [(Some ''Assunto'', Str (''Reuniao'' @ [CHR 0x0A] @ ''geral'')),
              (Some ''Data'', Str ''20/05/2024'')] =
     Inr [(''assunto'', ''Reuniao'' @ [CHR 0x0A] @ ''geral''), (''data'', ''20/05/2024'')]"
  by code_simp

lemma quoted_break_accepted:
  "process_row e ''assunto'' ''data'' ''Evento Importado''
     [(Some ''Assunto'', Str (''Reuniao'' @ [CHR 0x0A] @ ''geral'')),
      (Some ''Data'', Str ''20/05/2024'')] init_state =
   Inr \<lparr>ics_events = event_block e 0 (''Reuniao'' @ [CHR 0x0A] @ ''geral'')
          \<lparr>year = 2024, month = 5, day = 20, hour = 0, minute = 0, second = 0, microsecond = 0\<rparr>,
        processed_count = 1, calls = 1, log = []\<rparr>"
  using quoted_break_clean
  by (simp add: process_row_def scenario_dates dict_get_def
      falsy_def add_log_def init_state_def generate_event_block_event_block)

lemma example_env_writes:
  "write_output (example_env u c) fs path content = (fs(path \<mapsto> utf8_encode content), None)"
  by (simp add: write_output_def example_env_def)

lemma fatal_critical: "fatal (lg @ [critical input_file x])"
  by (simp add: fatal_def critical_def)

lemma not_fatal_success: "\<not> fatal (lg @ [Info_success n output_file])"
  by (simp add: fatal_def)

section \<open>Facts about dictionaries and normalized rows\<close>

lemma map_of_dict_set: "map_of (dict_set k v d) = (map_of d)(k \<mapsto> v)"
  by (induction d) (auto simp: fun_eq_iff)

lemma set_dict_set: "set (dict_set k v d) \<subseteq> insert (k, v) (set d)"
  by (induction d) (auto split: if_splits)

lemma keys_dict_set: "fst ` set (dict_set k v d) = insert k (fst ` set d)"
  by (induction d) (force split: if_splits)+

lemma dict_set_keeps: "(k', v') \<in> set d \<Longrightarrow> k' \<noteq> k \<Longrightarrow> (k', v') \<in> set (dict_set k v d)"
  by (induction d) auto

lemma set_zip_dict:
  "set (foldl (\<lambda>d (k, v). dict_set (Some k) (Str v) d) d0 kvs)
     \<subseteq> set d0 \<union> (\<lambda>(k, v). (Some k, Str v)) ` set kvs"
proof (induction kvs arbitrary: d0)
  case Nil
  then show ?case by simp
next
  case (Cons kv kvs)
  obtain k v where kv: "kv = (k, v)" by (cases kv)
  from Cons.IH [of "dict_set (Some k) (Str v) d0"] set_dict_set [of "Some k" "Str v" d0]
  show ?case
    unfolding kv by auto
qed

lemma keys_zip_dict:
  "fst ` set (foldl (\<lambda>d (k, v). dict_set (Some k) (Str v) d) d0 kvs)
     = fst ` set d0 \<union> Some ` fst ` set kvs"
proof (induction kvs arbitrary: d0)
  case Nil
  then show ?case by simp
next
  case (Cons kv kvs)
  obtain k v where kv: "kv = (k, v)" by (cases kv)
  show ?case
    unfolding kv by (simp add: Cons.IH keys_dict_set)
qed


lemma dict_row_items:
  assumes "length fieldnames \<le> length r" and "(k, v) \<in> set (dict_row fieldnames r)"
  shows "k = None \<or> (\<exists>f s. k = Some f \<and> v = Str s \<and> (f, s) \<in> set (zip fieldnames r))"
proof -
  let ?D = "foldl (\<lambda>d (k, v). dict_set (Some k) (Str v) d) [] (zip fieldnames r)"
  have "(k, v) \<in> set ?D \<or> k = None"
  proof (cases "length fieldnames < length r")
    case True
    with assms have "(k, v) \<in> set (dict_set None (Rest (drop (length fieldnames) r)) ?D)"
      by (simp add: dict_row_def Let_def)
    with set_dict_set [of None "Rest (drop (length fieldnames) r)" ?D] show ?thesis
      by auto
  next
    case False
    with assms show ?thesis
      by (simp add: dict_row_def Let_def)
  qed
  with set_zip_dict [of "[]" "zip fieldnames r"] show ?thesis
    by auto
qed

lemma dict_row_has_key:
  assumes "length fieldnames \<le> length r" and "i < length fieldnames"
  shows "\<exists>v. (Some (fieldnames ! i), v) \<in> set (dict_row fieldnames r)"
proof -
  let ?D = "foldl (\<lambda>d (k, v). dict_set (Some k) (Str v) d) [] (zip fieldnames r)"
  from assms have "(fieldnames ! i, r ! i) \<in> set (zip fieldnames r)"
    by (auto simp: set_zip)
  then have "Some (fieldnames ! i) \<in> fst ` set ?D"
    unfolding keys_zip_dict by force
  then obtain v where v: "(Some (fieldnames ! i), v) \<in> set ?D"
    by force
  show ?thesis
  proof (cases "length fieldnames < length r")
    case True
    with v dict_set_keeps [of "Some (fieldnames ! i)" v ?D None] show ?thesis
      by (auto simp: dict_row_def Let_def)
  next
    case False
    with assms v show ?thesis
      by (auto simp: dict_row_def Let_def)
  qed
qed

lemma clean_items_lookup:
  assumes "\<forall>(k, v) \<in> set items. k = None \<or> (\<exists>s. v = Str s)"
  shows "\<exists>rc. clean_items items acc = Inr rc
     \<and> ((\<exists>k s. (Some k, Str s) \<in> set items \<and> k \<noteq> [] \<and> lower (strip k) = t) \<longrightarrow>
          (\<exists>k s. (Some k, Str s) \<in> set items \<and> k \<noteq> [] \<and> lower (strip k) = t
               \<and> map_of rc t = Some (strip s)))
     \<and> (\<not> (\<exists>k s. (Some k, Str s) \<in> set items \<and> k \<noteq> [] \<and> lower (strip k) = t) \<longrightarrow>
          map_of rc t = map_of acc t)"
  using assms
proof (induction items arbitrary: acc)
  case Nil
  then show ?case by simp
next
  case (Cons item items)
  obtain k v where item: "item = (k, v)" by (cases item)
  from Cons.prems have tail: "\<forall>(k, v) \<in> set items. k = None \<or> (\<exists>s. v = Str s)"
    by simp
  show ?case
  proof (cases k)
    case None
    have "clean_items (item # items) acc = clean_items items acc"
      by (simp add: item None)
    with Cons.IH [OF tail, of acc] show ?thesis
      unfolding item None by auto
  next
    case (Some f)
    with Cons.prems item obtain s where s: "v = Str s" by auto
    show ?thesis
    proof (cases "f = []")
      case True
      then have run: "clean_items (item # items) acc = clean_items items acc"
        by (simp add: item Some)
      have same:
        "(\<exists>k s. (Some k, Str s) \<in> set (item # items) \<and> k \<noteq> [] \<and> lower (strip k) = t)
          = (\<exists>k s. (Some k, Str s) \<in> set items \<and> k \<noteq> [] \<and> lower (strip k) = t)"
        "\<And>rc. (\<exists>k s. (Some k, Str s) \<in> set (item # items) \<and> k \<noteq> []
              \<and> lower (strip k) = t \<and> map_of rc t = Some (strip s))
          = (\<exists>k s. (Some k, Str s) \<in> set items \<and> k \<noteq> [] \<and> lower (strip k) = t
              \<and> map_of rc t = Some (strip s))"
        unfolding item Some s using True by auto
      show ?thesis
        unfolding run same by (rule Cons.IH [OF tail])
    next
      case False
      let ?acc = "dict_set (lower (strip f)) (strip s) acc"
      from Cons.IH [OF tail, of ?acc] obtain rc where
        rc: "clean_items items ?acc = Inr rc"
        and later: "(\<exists>k s. (Some k, Str s) \<in> set items \<and> k \<noteq> [] \<and> lower (strip k) = t) \<longrightarrow>
          (\<exists>k s. (Some k, Str s) \<in> set items \<and> k \<noteq> [] \<and> lower (strip k) = t
                 \<and> map_of rc t = Some (strip s))"
        and none_later: "\<not> (\<exists>k s. (Some k, Str s) \<in> set items \<and> k \<noteq> [] \<and> lower (strip k) = t) \<longrightarrow>
          map_of rc t = map_of ?acc t"
        by blast
      have run: "clean_items (item # items) acc = Inr rc"
        unfolding item Some s using False rc by simp
      show ?thesis
      proof (cases "\<exists>k s. (Some k, Str s) \<in> set items \<and> k \<noteq> [] \<and> lower (strip k) = t")
        case True
        with later obtain k' s' where "(Some k', Str s') \<in> set items" "k' \<noteq> []"
          "lower (strip k') = t" "map_of rc t = Some (strip s')"
          by blast
        then have "\<exists>k s. (Some k, Str s) \<in> set (item # items) \<and> k \<noteq> [] \<and> lower (strip k) = t
               \<and> map_of rc t = Some (strip s)"
          by auto
        with run show ?thesis by blast
      next
        case no_later: False
        with none_later have here: "map_of rc t = map_of ?acc t" by simp
        show ?thesis
        proof (cases "lower (strip f) = t")
          case True
          with here have "map_of rc t = Some (strip s)"
            by (simp add: map_of_dict_set)
          with True False have "\<exists>k s. (Some k, Str s) \<in> set (item # items) \<and> k \<noteq> []
               \<and> lower (strip k) = t \<and> map_of rc t = Some (strip s)"
            unfolding item Some s by auto
          with run show ?thesis by blast
        next
          case False
          with here have same: "map_of rc t = map_of acc t"
            by (simp add: map_of_dict_set)
          from no_later False
          have "\<not> (\<exists>k s. (Some k, Str s) \<in> set (item # items) \<and> k \<noteq> [] \<and> lower (strip k) = t)"
            unfolding item Some s by auto
          with run same show ?thesis by blast
        qed
      qed
    qed
  qed
qed

lemma complete_row_never_raises:
  assumes "length fieldnames \<le> length r"
  shows "\<exists>st'. process_row e ts td ds (dict_row fieldnames r) st = Inr st'"
proof -
  have "\<forall>(k, v) \<in> set (dict_row fieldnames r). k = None \<or> (\<exists>s. v = Str s)"
    using dict_row_items [OF assms] by blast
  from clean_items_lookup [OF this, of "[]" td] obtain rc where
    rc: "row_clean (dict_row fieldnames r) = Inr rc"
    unfolding row_clean_def by blast
  show ?thesis
  proof (cases "spec_row ts td ds rc")
    case None
    from process_row_skipped [OF rc None, of e st] show ?thesis by blast
  next
    case (Some sd)
    obtain subject d where "sd = (subject, d)" by (cases sd)
    with Some process_row_accepted [OF rc, of ts td ds subject d e st] show ?thesis by blast
  qed
qed

lemma padded_header_normalized:
  "map (\<lambda>f. lower (strip f)) [''Assunto'', '' DATA ''] = [''assunto'', ''data'']"
  "strip ''20/05/2024'' = ''20/05/2024''"
  "lower (strip '' Data'') = ''data''"
  "lower (strip ''Data'') = ''data''"
  "lower '' Data'' = '' data''"
  by code_simp+

lemma padded_target_skipped:
  "process_row e '' assunto'' '' data'' ''Evento Importado''
     [(Some ''Assunto'', Str ''Dentist''), (Some ''Data'', Str ''20/05/2024'')] init_state =
   Inr \<lparr>ics_events = [], processed_count = 0, calls = 0,
        log = [Warning_default_subject ''Evento Importado'',
               Warning_no_date
                 [(Some ''Assunto'', Str ''Dentist''), (Some ''Data'', Str ''20/05/2024'')]]\<rparr>"
  by (simp add: process_row_def scenario_rows_clean dict_get_def falsy_def add_log_def
      init_state_def)

section \<open>The document\<close>

text \<open>
  C3. Assembling no event lines gives exactly the five header lines, the nine lines of
  the one timezone block and the terminating line. Assembling the lines of a sequence
  of blocks gives the header and timezone lines, then the blocks in the order given,
  then the terminating line. In a run whose loop ends without an exception, the blocks
  assembled are the blocks of the accepted rows in the order of the input rows, one per
  accepted row, so their number is the count of rows accepted.
\<close>

theorem document_structure:
  "generate_ics_structure [] =
     [''BEGIN:VCALENDAR'',
      ''PRODID:-//CSV-to-ICS//Github//PT-BR'',
      ''VERSION:2.0'',
      ''METHOD:PUBLISH'',
      ''X-WR-CALNAME:Eventos Importados'',
      ''BEGIN:VTIMEZONE'',
      ''TZID:America/Sao_Paulo'',
      ''BEGIN:STANDARD'',
      ''DTSTART:16010101T000000'',
      ''TZOFFSETTO:-0300'',
      ''TZOFFSETFROM:-0300'',
      ''TZNAME:-03'',
      ''END:STANDARD'',
      ''END:VTIMEZONE'',
      ''END:VCALENDAR'']
   \<and> generate_ics_structure (concat blocks) = header @ concat blocks @ [''END:VCALENDAR'']
   \<and> (rows_loop e ts td ds fieldnames records init_state = (st, None) \<longrightarrow>
        processed_count st = length (spec_accepted ts td ds fieldnames records)
        \<and> length (spec_blocks e 0 (spec_accepted ts td ds fieldnames records)) = processed_count st
        \<and> generate_ics_structure (ics_events st) =
            header @ concat (spec_blocks e 0 (spec_accepted ts td ds fieldnames records))
            @ [''END:VCALENDAR''])"
proof -
  have empty: "generate_ics_structure [] = header @ [''END:VCALENDAR'']"
    by (simp add: generate_ics_structure_def)
  have loop: "processed_count st = length (spec_accepted ts td ds fieldnames records)
      \<and> ics_events st = concat (spec_blocks e 0 (spec_accepted ts td ds fieldnames records))"
    if "rows_loop e ts td ds fieldnames records init_state = (st, None)"
    using rows_loop_blocks [OF that] by (simp add: init_state_def)
  from empty loop show ?thesis
    by (simp add: generate_ics_structure_def header_def length_spec_blocks)
qed

theorem document_structure_witness:
  "rows_loop (example_env [] []) ''assunto'' ''data'' ''Evento Importado'' [''Assunto'', ''Data'']
     [[''Dentist'', ''20/05/2024'']] init_state =
     (\<lparr>ics_events = event_block (example_env [] []) 0 ''Dentist''
          \<lparr>year = 2024, month = 5, day = 20, hour = 0, minute = 0, second = 0, microsecond = 0\<rparr>,
       processed_count = 1, calls = 1, log = []\<rparr>, None)
   \<and> length (spec_accepted ''assunto'' ''data'' ''Evento Importado'' [''Assunto'', ''Data'']
        [[''Dentist'', ''20/05/2024'']]) = 1
   \<and> generate_ics_structure (event_block (example_env [] []) 0 ''Dentist''
          \<lparr>year = 2024, month = 5, day = 20, hour = 0, minute = 0, second = 0, microsecond = 0\<rparr>)
       = header
         @ concat (spec_blocks (example_env [] []) 0
             (spec_accepted ''assunto'' ''data'' ''Evento Importado'' [''Assunto'', ''Data'']
                [[''Dentist'', ''20/05/2024'']]))
         @ [''END:VCALENDAR'']"
proof -
  have loop: "rows_loop (example_env [] []) ''assunto'' ''data'' ''Evento Importado''
     [''Assunto'', ''Data''] [[''Dentist'', ''20/05/2024'']] init_state =
     (\<lparr>ics_events = event_block (example_env [] []) 0 ''Dentist''
          \<lparr>year = 2024, month = 5, day = 20, hour = 0, minute = 0, second = 0, microsecond = 0\<rparr>,
       processed_count = 1, calls = 1, log = []\<rparr>, None)"
    by (simp add: dict_row_def first_row_accepted)
  from loop document_structure [of "[]" "example_env [] []" "''assunto''" "''data''"
      "''Evento Importado''" "[''Assunto'', ''Data'']" "[[''Dentist'', ''20/05/2024'']]"
      "\<lparr>ics_events = event_block (example_env [] []) 0 ''Dentist''
          \<lparr>year = 2024, month = 5, day = 20, hour = 0, minute = 0, second = 0, microsecond = 0\<rparr>,
       processed_count = 1, calls = 1, log = []\<rparr>"]
  show ?thesis by simp
qed

section \<open>The end-to-end scenario\<close>

text \<open>
  C4. The header \<open>Assunto;Data\<close> followed by the four rows (Dentist, 20/05/2024),
  (empty, 21/05/2024), (X, empty) and (Y, bad-date), with the default subject
  \<open>Evento Importado\<close>: the loop accepts exactly two rows, the rows 1 and 2; the block of
  the second accepted row has the subject line \<open>SUMMARY:Evento Importado\<close>; row 3 is
  skipped for its missing date and row 4 for its invalid date. A run whose input reads
  as these lines hands to the write step a document that holds the header, the two
  blocks and the terminating line; when the output file opens and the write does not
  fail, the file holds that document and the run reports two events.
\<close>

theorem end_to_end_scenario:
  "read_rows e (lower ''Assunto'') (lower ''Data'') ''Evento Importado''
     ([[''Assunto'', ''Data''], [''Dentist'', ''20/05/2024''], [[], ''21/05/2024''],
       [''X'', []], [''Y'', ''bad-date'']], None) =
   (\<lparr>ics_events =
        event_block e 0 ''Dentist''
          \<lparr>year = 2024, month = 5, day = 20, hour = 0, minute = 0, second = 0, microsecond = 0\<rparr>
        @ event_block e 1 ''Evento Importado''
          \<lparr>year = 2024, month = 5, day = 21, hour = 0, minute = 0, second = 0, microsecond = 0\<rparr>,
      processed_count = 2, calls = 2,
      log = [Warning_default_subject ''Evento Importado'',
             Warning_no_date [(Some ''Assunto'', Str ''X''), (Some ''Data'', Str [])],
             Error_invalid_date ''bad-date'']\<rparr>, None)
   \<and> event_block e 1 ''Evento Importado''
          \<lparr>year = 2024, month = 5, day = 21, hour = 0, minute = 0, second = 0, microsecond = 0\<rparr>
        ! 5 = ''SUMMARY:Evento Importado''
   \<and> (fs input_file = Some content \<and> text_lines e UTF8 content = scenario_lines \<longrightarrow>
        process_csv e fs input_file output_file '';'' ''Assunto'' ''Data'' ''Evento Importado'' =
          (case write_output e fs output_file (join crlf
             (header
              @ event_block e 0 ''Dentist''
                  \<lparr>year = 2024, month = 5, day = 20, hour = 0, minute = 0, second = 0,
                   microsecond = 0\<rparr>
              @ event_block e 1 ''Evento Importado''
                  \<lparr>year = 2024, month = 5, day = 21, hour = 0, minute = 0, second = 0,
                   microsecond = 0\<rparr>
              @ [''END:VCALENDAR''])) of
             (fs', Some x) \<Rightarrow>
               (fs',
                [Warning_default_subject ''Evento Importado'',
                 Warning_no_date [(Some ''Assunto'', Str ''X''), (Some ''Data'', Str [])],
                 Error_invalid_date ''bad-date'',
                 critical input_file x])
           | (fs', None) \<Rightarrow>
               (fs',
                [Warning_default_subject ''Evento Importado'',
                 Warning_no_date [(Some ''Assunto'', Str ''X''), (Some ''Data'', Str [])],
                 Error_invalid_date ''bad-date'',
                 Info_success 2 output_file])))
   \<and> (fs input_file = Some content \<and> text_lines e UTF8 content = scenario_lines
        \<and> open_w e output_file = None \<and> (\<forall>bytes. write_fault e output_file bytes = None) \<longrightarrow>
        process_csv e fs input_file output_file '';'' ''Assunto'' ''Data'' ''Evento Importado'' =
          (fs(output_file \<mapsto> utf8_encode (join crlf
             (header
              @ event_block e 0 ''Dentist''
                  \<lparr>year = 2024, month = 5, day = 20, hour = 0, minute = 0, second = 0,
                   microsecond = 0\<rparr>
              @ event_block e 1 ''Evento Importado''
                  \<lparr>year = 2024, month = 5, day = 21, hour = 0, minute = 0, second = 0,
                   microsecond = 0\<rparr>
              @ [''END:VCALENDAR'']))),
           [Warning_default_subject ''Evento Importado'',
            Warning_no_date [(Some ''Assunto'', Str ''X''), (Some ''Data'', Str [])],
            Error_invalid_date ''bad-date'',
            Info_success 2 output_file]))"
proof -
  have run:
    "process_csv e fs input_file output_file '';'' ''Assunto'' ''Data'' ''Evento Importado'' =
          (case write_output e fs output_file (join crlf
             (header
              @ event_block e 0 ''Dentist''
                  \<lparr>year = 2024, month = 5, day = 20, hour = 0, minute = 0, second = 0,
                   microsecond = 0\<rparr>
              @ event_block e 1 ''Evento Importado''
                  \<lparr>year = 2024, month = 5, day = 21, hour = 0, minute = 0, second = 0,
                   microsecond = 0\<rparr>
              @ [''END:VCALENDAR''])) of
             (fs', Some x) \<Rightarrow>
               (fs',
                [Warning_default_subject ''Evento Importado'',
                 Warning_no_date [(Some ''Assunto'', Str ''X''), (Some ''Data'', Str [])],
                 Error_invalid_date ''bad-date'',
                 critical input_file x])
           | (fs', None) \<Rightarrow>
               (fs',
                [Warning_default_subject ''Evento Importado'',
                 Warning_no_date [(Some ''Assunto'', Str ''X''), (Some ''Data'', Str [])],
                 Error_invalid_date ''bad-date'',
                 Info_success 2 output_file]))"
    if "fs input_file = Some content" and "text_lines e UTF8 content = scenario_lines"
  proof -
    from that have "open_reader e fs input_file '';'' =
        Inr ([[''Assunto'', ''Data''], [''Dentist'', ''20/05/2024''], [[], ''21/05/2024''],
              [''X'', []], [''Y'', ''bad-date'']], None)"
      by (simp add: open_reader_def scenario_lines_records scenario_probe)
    then show ?thesis
      by (simp add: process_csv_def lower_default_columns scenario_read_rows
          generate_ics_structure_def)
  qed
  have written:
    "process_csv e fs input_file output_file '';'' ''Assunto'' ''Data'' ''Evento Importado'' =
          (fs(output_file \<mapsto> utf8_encode (join crlf
             (header
              @ event_block e 0 ''Dentist''
                  \<lparr>year = 2024, month = 5, day = 20, hour = 0, minute = 0, second = 0,
                   microsecond = 0\<rparr>
              @ event_block e 1 ''Evento Importado''
                  \<lparr>year = 2024, month = 5, day = 21, hour = 0, minute = 0, second = 0,
                   microsecond = 0\<rparr>
              @ [''END:VCALENDAR'']))),
           [Warning_default_subject ''Evento Importado'',
            Warning_no_date [(Some ''Assunto'', Str ''X''), (Some ''Data'', Str [])],
            Error_invalid_date ''bad-date'',
            Info_success 2 output_file])"
    if "fs input_file = Some content" and "text_lines e UTF8 content = scenario_lines"
      and "open_w e output_file = None" and "\<forall>bytes. write_fault e output_file bytes = None"
    using that by (simp add: run write_output_def)
  from run written show ?thesis
    by (simp add: lower_default_columns scenario_read_rows event_block_value)
qed

theorem end_to_end_scenario_witness:
  "example_fs ''eventos.csv'' = Some []
   \<and> text_lines (example_env scenario_lines []) UTF8 [] = scenario_lines
   \<and> open_w (example_env scenario_lines []) ''calendario.ics'' = None
   \<and> snd (process_csv (example_env scenario_lines [])
        example_fs ''eventos.csv'' ''calendario.ics'' '';'' ''Assunto'' ''Data''
        ''Evento Importado'') =
       [Warning_default_subject ''Evento Importado'',
        Warning_no_date [(Some ''Assunto'', Str ''X''), (Some ''Data'', Str [])],
        Error_invalid_date ''bad-date'',
        Info_success 2 ''calendario.ics'']"
proof -
  have given: "example_fs ''eventos.csv'' = Some []"
    "text_lines (example_env scenario_lines []) UTF8 [] = scenario_lines"
    "open_w (example_env scenario_lines []) ''calendario.ics'' = None"
    "\<forall>bytes. write_fault (example_env scenario_lines []) ''calendario.ics'' bytes = None"
    by (simp_all add: example_fs_def example_env_def)
  with end_to_end_scenario [of "example_env scenario_lines []"
      example_fs "''eventos.csv''" "[]" "''calendario.ics''",
      THEN conjunct2, THEN conjunct2, THEN conjunct2]
  have "snd (process_csv (example_env scenario_lines [])
        example_fs ''eventos.csv'' ''calendario.ics'' '';'' ''Assunto'' ''Data''
        ''Evento Importado'') =
       [Warning_default_subject ''Evento Importado'',
        Warning_no_date [(Some ''Assunto'', Str ''X''), (Some ''Data'', Str [])],
        Error_invalid_date ''bad-date'',
        Info_success 2 ''calendario.ics'']"
    by simp
  with given show ?thesis by simp
qed

section \<open>Rows with fewer fields than the header\<close>

text \<open>
  C5. A record with fewer fields than the header gives a row in which the missing
  columns hold \<open>None\<close>; normalizing that row raises \<open>AttributeError\<close>, which leaves the
  loop: the run whose second record is the single field \<open>Solo\<close> ends with a critical
  message and writes nothing, although its first row is valid.
\<close>

theorem short_row_aborts_run:
  "dict_row [''Assunto'', ''Data''] [''Solo''] =
     [(Some ''Assunto'', Str ''Solo''), (Some ''Data'', NoneVal)]
   \<and> process_row e ''assunto'' ''data'' ''Evento Importado''
        (dict_row [''Assunto'', ''Data''] [''Solo'']) st = Inl AttributeError
   \<and> process_csv (example_env short_row_lines [])
        example_fs ''eventos.csv'' ''calendario.ics'' '';'' ''Assunto'' ''Data''
        ''Evento Importado'' =
       (example_fs, [Critical_error AttributeError])"
proof -
  have "open_reader (example_env short_row_lines []) example_fs ''eventos.csv'' '';'' =
      Inr ([[''Assunto'', ''Data''], [''Dentist'', ''20/05/2024''], [''Solo'']], None)"
    by (simp add: open_reader_def example_fs_def example_env_def short_row_records probe_def)
  then have "process_csv (example_env short_row_lines [])
        example_fs ''eventos.csv'' ''calendario.ics'' '';'' ''Assunto'' ''Data''
        ''Evento Importado'' =
       (example_fs, [Critical_error AttributeError])"
    by (simp add: process_csv_def lower_default_columns read_rows_def dict_row_def
        first_row_accepted short_row_raises critical_def)
  then show ?thesis
    by (simp add: short_row_dict short_row_raises)
qed

section \<open>The choice of the encoding\<close>

text \<open>
  C6. The second encoding is selected only when the first read of a record under UTF-8
  raises the decoding error. An input whose header and first record decode, and whose
  third line does not, ends the run with a critical message: it is not read again
  under cp1252, under which every line decodes, and nothing is written. When the
  second line already fails to decode, the input is read under cp1252 and the document
  is written.
\<close>

theorem late_decode_error_is_fatal:
  "process_csv (example_env late_error_utf8 late_error_cp1252)
        example_fs ''eventos.csv'' ''calendario.ics'' '';'' ''Assunto'' ''Data''
        ''Evento Importado'' =
       (example_fs, [Critical_error UnicodeDecodeError])
   \<and> process_csv (example_env early_error_utf8 early_error_cp1252)
        example_fs ''eventos.csv'' ''calendario.ics'' '';'' ''Assunto'' ''Data''
        ''Evento Importado'' =
       (example_fs(''calendario.ics'' \<mapsto> utf8_encode (join crlf
          (header
           @ event_block (example_env early_error_utf8 early_error_cp1252) 0
               (''Reuni'' @ [CHR 0xE3] @ ''o'')
               \<lparr>year = 2024, month = 5, day = 21, hour = 0, minute = 0, second = 0,
                microsecond = 0\<rparr>
           @ [''END:VCALENDAR'']))),
        [Info_success 1 ''calendario.ics''])"
proof -
  have "open_reader (example_env late_error_utf8 late_error_cp1252) example_fs
          ''eventos.csv'' '';'' =
      Inr ([[''Assunto'', ''Data''], [''Dentist'', ''20/05/2024'']], Some UnicodeDecodeError)"
    by (simp add: open_reader_def example_fs_def example_env_def late_error_records probe_def)
  then have late: "process_csv (example_env late_error_utf8 late_error_cp1252)
        example_fs ''eventos.csv'' ''calendario.ics'' '';'' ''Assunto'' ''Data''
        ''Evento Importado'' =
       (example_fs, [Critical_error UnicodeDecodeError])"
    by (simp add: process_csv_def lower_default_columns read_rows_def dict_row_def
        first_row_accepted critical_def)
  have "open_reader (example_env early_error_utf8 early_error_cp1252) example_fs
          ''eventos.csv'' '';'' =
      Inr ([[''Assunto'', ''Data''], [''Reuni'' @ [CHR 0xE3] @ ''o'', ''21/05/2024'']], None)"
    by (simp add: open_reader_def example_fs_def example_env_def early_error_records probe_def)
  then have early: "process_csv (example_env early_error_utf8 early_error_cp1252)
        example_fs ''eventos.csv'' ''calendario.ics'' '';'' ''Assunto'' ''Data''
        ''Evento Importado'' =
       (example_fs(''calendario.ics'' \<mapsto> utf8_encode (join crlf
          (header
           @ event_block (example_env early_error_utf8 early_error_cp1252) 0
               (''Reuni'' @ [CHR 0xE3] @ ''o'')
               \<lparr>year = 2024, month = 5, day = 21, hour = 0, minute = 0, second = 0,
                microsecond = 0\<rparr>
           @ [''END:VCALENDAR'']))),
        [Info_success 1 ''calendario.ics''])"
    using fallback_row_accepted [of "example_env early_error_utf8 early_error_cp1252"]
    by (simp add: process_csv_def lower_default_columns read_rows_def dict_row_def
        generate_ics_structure_def example_env_writes)
  from late early show ?thesis by simp
qed

section \<open>The output file\<close>

text \<open>
  C7. When the input file does not exist the run logs the critical message for a
  missing file and the file system is unchanged. The document is built from the state
  that the loop over all rows has reached, and the output file is touched at the very
  end only: a run that fails while the input is opened, or while the rows are read and
  processed, or when the output file cannot be opened, ends with a critical message and
  the file system it started with. Only when all that has succeeded is the output file
  written, once: it then holds the whole document, or, when the write itself raises,
  the part written before. No other path of the file system ever changes, and the file
  system changes only in a run in which every step before the write succeeded.
\<close>

theorem missing_input_single_write:
  "(fs input_file = None \<longrightarrow>
      process_csv e fs input_file output_file delimiter col_subject col_date default_subject =
        (fs, [Critical_not_found input_file]))
   \<and> (open_reader e fs input_file delimiter = Inl x \<longrightarrow>
      process_csv e fs input_file output_file delimiter col_subject col_date default_subject =
        (fs, [critical input_file x]))
   \<and> (open_reader e fs input_file delimiter = Inr rd
       \<and> read_rows e (lower col_subject) (lower col_date) default_subject rd = (st, Some x) \<longrightarrow>
      process_csv e fs input_file output_file delimiter col_subject col_date default_subject =
        (fs, log st @ [critical input_file x]))
   \<and> (open_reader e fs input_file delimiter = Inr rd
       \<and> read_rows e (lower col_subject) (lower col_date) default_subject rd = (st, None)
       \<and> open_w e output_file = Some x \<longrightarrow>
      process_csv e fs input_file output_file delimiter col_subject col_date default_subject =
        (fs, log st @ [critical input_file x]))
   \<and> (open_reader e fs input_file delimiter = Inr rd
       \<and> read_rows e (lower col_subject) (lower col_date) default_subject rd = (st, None)
       \<and> open_w e output_file = None
       \<and> write_fault e output_file
            (utf8_encode (join crlf (generate_ics_structure (ics_events st)))) = None \<longrightarrow>
      process_csv e fs input_file output_file delimiter col_subject col_date default_subject =
        (fs(output_file \<mapsto> utf8_encode (join crlf (generate_ics_structure (ics_events st)))),
         log st @ [Info_success (processed_count st) output_file]))
   \<and> (open_reader e fs input_file delimiter = Inr rd
       \<and> read_rows e (lower col_subject) (lower col_date) default_subject rd = (st, None)
       \<and> open_w e output_file = None
       \<and> write_fault e output_file
            (utf8_encode (join crlf (generate_ics_structure (ics_events st)))) = Some (x, n) \<longrightarrow>
      process_csv e fs input_file output_file delimiter col_subject col_date default_subject =
        (fs(output_file \<mapsto>
              take n (utf8_encode (join crlf (generate_ics_structure (ics_events st))))),
         log st @ [critical input_file x]))
   \<and> (p \<noteq> output_file \<longrightarrow>
      fst (process_csv e fs input_file output_file delimiter col_subject col_date
             default_subject) p = fs p)
   \<and> (fst (process_csv e fs input_file output_file delimiter col_subject col_date
             default_subject) \<noteq> fs \<longrightarrow>
      (\<exists>rd' st'. open_reader e fs input_file delimiter = Inr rd'
         \<and> read_rows e (lower col_subject) (lower col_date) default_subject rd' = (st', None)
         \<and> open_w e output_file = None))"
proof -
  let ?run = "process_csv e fs input_file output_file delimiter col_subject col_date
    default_subject"
  have missing: "?run = (fs, [Critical_not_found input_file])" if "fs input_file = None"
    using that by (simp add: process_csv_def open_reader_def critical_def)
  have no_reader: "?run = (fs, [critical input_file x])"
    if "open_reader e fs input_file delimiter = Inl x" for x
    using that by (simp add: process_csv_def)
  have loop_raises: "?run = (fs, log st @ [critical input_file x])"
    if "open_reader e fs input_file delimiter = Inr rd"
      and "read_rows e (lower col_subject) (lower col_date) default_subject rd = (st, Some x)"
    for rd st x
    using that by (simp add: process_csv_def)
  have not_opened: "?run = (fs, log st @ [critical input_file x])"
    if "open_reader e fs input_file delimiter = Inr rd"
      and "read_rows e (lower col_subject) (lower col_date) default_subject rd = (st, None)"
      and "open_w e output_file = Some x"
    for rd st x
    using that by (simp add: process_csv_def write_output_def)
  have written: "?run =
      (fs(output_file \<mapsto> utf8_encode (join crlf (generate_ics_structure (ics_events st)))),
       log st @ [Info_success (processed_count st) output_file])"
    if "open_reader e fs input_file delimiter = Inr rd"
      and "read_rows e (lower col_subject) (lower col_date) default_subject rd = (st, None)"
      and "open_w e output_file = None"
      and "write_fault e output_file
            (utf8_encode (join crlf (generate_ics_structure (ics_events st)))) = None"
    for rd st
    using that by (simp add: process_csv_def write_output_def)
  have partly: "?run =
      (fs(output_file \<mapsto>
            take n (utf8_encode (join crlf (generate_ics_structure (ics_events st))))),
       log st @ [critical input_file x])"
    if "open_reader e fs input_file delimiter = Inr rd"
      and "read_rows e (lower col_subject) (lower col_date) default_subject rd = (st, None)"
      and "open_w e output_file = None"
      and "write_fault e output_file
            (utf8_encode (join crlf (generate_ics_structure (ics_events st)))) = Some (x, n)"
    for rd st x n
    using that by (simp add: process_csv_def write_output_def)
  have elsewhere: "fst ?run p = fs p" if "p \<noteq> output_file" for p
    using that
    by (auto simp: process_csv_def write_output_def Let_def
        split: sum.splits prod.splits option.splits)
  have changed: "\<exists>rd' st'. open_reader e fs input_file delimiter = Inr rd'
         \<and> read_rows e (lower col_subject) (lower col_date) default_subject rd' = (st', None)
         \<and> open_w e output_file = None"
    if "fst ?run \<noteq> fs"
  proof (cases "open_reader e fs input_file delimiter")
    case (Inl y)
    with that no_reader [OF Inl] show ?thesis by simp
  next
    case (Inr rd')
    obtain st' y where rr:
      "read_rows e (lower col_subject) (lower col_date) default_subject rd' = (st', y)"
      by (cases "read_rows e (lower col_subject) (lower col_date) default_subject rd'")
    show ?thesis
    proof (cases y)
      case (Some z)
      with that Inr rr show ?thesis by (simp add: process_csv_def)
    next
      case None
      show ?thesis
      proof (cases "open_w e output_file")
        case (Some z)
        with that Inr rr None show ?thesis
          by (simp add: process_csv_def write_output_def)
      next
        case no_fault: None
        with Inr rr None show ?thesis by blast
      qed
    qed
  qed
  from missing no_reader loop_raises not_opened written partly elsewhere changed
  show ?thesis by blast
qed

theorem missing_input_single_write_witness:
  "example_fs ''agenda.csv'' = None
   \<and> process_csv (example_env [] []) example_fs ''agenda.csv'' ''calendario.ics'' '';''
        ''Assunto'' ''Data'' ''Evento Importado'' =
       (example_fs, [Critical_not_found ''agenda.csv''])
   \<and> open_reader (example_env short_row_lines []) example_fs ''eventos.csv'' '';'' =
       Inr ([[''Assunto'', ''Data''], [''Dentist'', ''20/05/2024''], [''Solo'']], None)
   \<and> snd (read_rows (example_env short_row_lines []) (lower ''Assunto'') (lower ''Data'')
        ''Evento Importado''
        ([[''Assunto'', ''Data''], [''Dentist'', ''20/05/2024''], [''Solo'']], None)) =
       Some AttributeError
   \<and> fst (process_csv (example_env short_row_lines []) example_fs ''eventos.csv''
        ''calendario.ics'' '';'' ''Assunto'' ''Data'' ''Evento Importado'') = example_fs
   \<and> open_reader (example_env scenario_lines []) example_fs ''eventos.csv'' '';'' =
       Inr ([[''Assunto'', ''Data''], [''Dentist'', ''20/05/2024''], [[], ''21/05/2024''],
             [''X'', []], [''Y'', ''bad-date'']], None)
   \<and> fst (process_csv (example_env scenario_lines []) example_fs ''eventos.csv''
        ''calendario.ics'' '';'' ''Assunto'' ''Data'' ''Evento Importado'') =
       example_fs(''calendario.ics'' \<mapsto> utf8_encode (join crlf (generate_ics_structure
         (event_block (example_env scenario_lines []) 0 ''Dentist''
            \<lparr>year = 2024, month = 5, day = 20, hour = 0, minute = 0, second = 0,
             microsecond = 0\<rparr>
          @ event_block (example_env scenario_lines []) 1 ''Evento Importado''
            \<lparr>year = 2024, month = 5, day = 21, hour = 0, minute = 0, second = 0,
             microsecond = 0\<rparr>))))
   \<and> process_csv ((example_env scenario_lines [])\<lparr>open_w := \<lambda>path. Some PermissionError\<rparr>)
        example_fs ''eventos.csv'' ''calendario.ics'' '';'' ''Assunto'' ''Data''
        ''Evento Importado'' =
       (example_fs,
        [Warning_default_subject ''Evento Importado'',
         Warning_no_date [(Some ''Assunto'', Str ''X''), (Some ''Data'', Str [])],
         Error_invalid_date ''bad-date'',
         Critical_error PermissionError])
   \<and> process_csv
        ((example_env scenario_lines [])\<lparr>write_fault := \<lambda>path bytes. Some (OSError, 0)\<rparr>)
        example_fs ''eventos.csv'' ''calendario.ics'' '';'' ''Assunto'' ''Data''
        ''Evento Importado'' =
       (example_fs(''calendario.ics'' \<mapsto> []),
        [Warning_default_subject ''Evento Importado'',
         Warning_no_date [(Some ''Assunto'', Str ''X''), (Some ''Data'', Str [])],
         Error_invalid_date ''bad-date'',
         Critical_error OSError])"
proof -
  let ?records = "[[''Assunto'', ''Data''], [''Dentist'', ''20/05/2024''], [[], ''21/05/2024''],
             [''X'', []], [''Y'', ''bad-date'']]"
  let ?st = "\<lparr>ics_events =
        event_block (example_env scenario_lines []) 0 ''Dentist''
          \<lparr>year = 2024, month = 5, day = 20, hour = 0, minute = 0, second = 0, microsecond = 0\<rparr>
        @ event_block (example_env scenario_lines []) 1 ''Evento Importado''
          \<lparr>year = 2024, month = 5, day = 21, hour = 0, minute = 0, second = 0, microsecond = 0\<rparr>,
      processed_count = 2, calls = 2,
      log = [Warning_default_subject ''Evento Importado'',
             Warning_no_date [(Some ''Assunto'', Str ''X''), (Some ''Data'', Str [])],
             Error_invalid_date ''bad-date'']\<rparr>"
  have absent: "example_fs ''agenda.csv'' = None"
    by (simp add: example_fs_def)
  from missing_input_single_write [of example_fs "''agenda.csv''" "example_env [] []"
      "''calendario.ics''" "'';''" "''Assunto''" "''Data''" "''Evento Importado''"] absent
  have run1: "process_csv (example_env [] []) example_fs ''agenda.csv'' ''calendario.ics'' '';''
        ''Assunto'' ''Data'' ''Evento Importado'' =
       (example_fs, [Critical_not_found ''agenda.csv''])"
    by blast
  have reader2: "open_reader (example_env short_row_lines []) example_fs ''eventos.csv'' '';'' =
       Inr ([[''Assunto'', ''Data''], [''Dentist'', ''20/05/2024''], [''Solo'']], None)"
    by (simp add: open_reader_def example_fs_def example_env_def short_row_records probe_def)
  have rows2: "read_rows (example_env short_row_lines []) (lower ''Assunto'') (lower ''Data'')
        ''Evento Importado''
        ([[''Assunto'', ''Data''], [''Dentist'', ''20/05/2024''], [''Solo'']], None) =
      (\<lparr>ics_events = event_block (example_env short_row_lines []) 0 ''Dentist''
          \<lparr>year = 2024, month = 5, day = 20, hour = 0, minute = 0, second = 0, microsecond = 0\<rparr>,
        processed_count = 1, calls = 1, log = []\<rparr>, Some AttributeError)"
    by (simp add: lower_default_columns read_rows_def dict_row_def first_row_accepted
        short_row_raises)
  from missing_input_single_write [of example_fs "''eventos.csv''"
      "example_env short_row_lines []" "''calendario.ics''" "'';''" "''Assunto''" "''Data''"
      "''Evento Importado''" AttributeError
      "([[''Assunto'', ''Data''], [''Dentist'', ''20/05/2024''], [''Solo'']], None)"
      "\<lparr>ics_events = event_block (example_env short_row_lines []) 0 ''Dentist''
          \<lparr>year = 2024, month = 5, day = 20, hour = 0, minute = 0, second = 0, microsecond = 0\<rparr>,
        processed_count = 1, calls = 1, log = []\<rparr>"] reader2 rows2
  have run2: "fst (process_csv (example_env short_row_lines []) example_fs ''eventos.csv''
        ''calendario.ics'' '';'' ''Assunto'' ''Data'' ''Evento Importado'') = example_fs"
    by simp
  have reader3: "open_reader env3 example_fs ''eventos.csv'' '';'' = Inr (?records, None)"
    if "text_lines env3 UTF8 [] = scenario_lines" for env3
    using that
    by (simp add: open_reader_def example_fs_def scenario_lines_records scenario_probe)
  have rows3: "read_rows env3 (lower ''Assunto'') (lower ''Data'') ''Evento Importado''
        (?records, None) =
      (\<lparr>ics_events =
        event_block env3 0 ''Dentist''
          \<lparr>year = 2024, month = 5, day = 20, hour = 0, minute = 0, second = 0, microsecond = 0\<rparr>
        @ event_block env3 1 ''Evento Importado''
          \<lparr>year = 2024, month = 5, day = 21, hour = 0, minute = 0, second = 0, microsecond = 0\<rparr>,
      processed_count = 2, calls = 2,
      log = [Warning_default_subject ''Evento Importado'',
             Warning_no_date [(Some ''Assunto'', Str ''X''), (Some ''Data'', Str [])],
             Error_invalid_date ''bad-date'']\<rparr>, None)" for env3
    by (simp add: lower_default_columns scenario_read_rows)
  have lines3: "text_lines (example_env scenario_lines []) UTF8 [] = scenario_lines"
    "text_lines ((example_env scenario_lines [])\<lparr>open_w := \<lambda>path. Some PermissionError\<rparr>)
       UTF8 [] = scenario_lines"
    "text_lines ((example_env scenario_lines [])\<lparr>write_fault := \<lambda>path bytes. Some (OSError, 0)\<rparr>)
       UTF8 [] = scenario_lines"
    by (simp_all add: example_env_def)
  from missing_input_single_write [of example_fs "''eventos.csv''"
      "example_env scenario_lines []" "''calendario.ics''" "'';''" "''Assunto''" "''Data''"
      "''Evento Importado''" OSError "(?records, None)" ?st]
    reader3 [OF lines3(1)] rows3 [of "example_env scenario_lines []"]
  have run3: "fst (process_csv (example_env scenario_lines []) example_fs ''eventos.csv''
        ''calendario.ics'' '';'' ''Assunto'' ''Data'' ''Evento Importado'') =
       example_fs(''calendario.ics'' \<mapsto> utf8_encode (join crlf (generate_ics_structure
         (event_block (example_env scenario_lines []) 0 ''Dentist''
            \<lparr>year = 2024, month = 5, day = 20, hour = 0, minute = 0, second = 0,
             microsecond = 0\<rparr>
          @ event_block (example_env scenario_lines []) 1 ''Evento Importado''
            \<lparr>year = 2024, month = 5, day = 21, hour = 0, minute = 0, second = 0,
             microsecond = 0\<rparr>))))"
    by (simp add: example_env_def)
  from missing_input_single_write [of example_fs "''eventos.csv''"
      "(example_env scenario_lines [])\<lparr>open_w := \<lambda>path. Some PermissionError\<rparr>"
      "''calendario.ics''" "'';''" "''Assunto''" "''Data''" "''Evento Importado''"
      PermissionError "(?records, None)"
      "\<lparr>ics_events =
        event_block ((example_env scenario_lines [])\<lparr>open_w := \<lambda>path. Some PermissionError\<rparr>)
          0 ''Dentist''
          \<lparr>year = 2024, month = 5, day = 20, hour = 0, minute = 0, second = 0, microsecond = 0\<rparr>
        @ event_block ((example_env scenario_lines [])\<lparr>open_w := \<lambda>path. Some PermissionError\<rparr>)
          1 ''Evento Importado''
          \<lparr>year = 2024, month = 5, day = 21, hour = 0, minute = 0, second = 0, microsecond = 0\<rparr>,
      processed_count = 2, calls = 2,
      log = [Warning_default_subject ''Evento Importado'',
             Warning_no_date [(Some ''Assunto'', Str ''X''), (Some ''Data'', Str [])],
             Error_invalid_date ''bad-date'']\<rparr>"]
    reader3 [OF lines3(2)]
    rows3 [of "(example_env scenario_lines [])\<lparr>open_w := \<lambda>path. Some PermissionError\<rparr>"]
  have run4: "process_csv ((example_env scenario_lines [])\<lparr>open_w := \<lambda>path. Some PermissionError\<rparr>)
        example_fs ''eventos.csv'' ''calendario.ics'' '';'' ''Assunto'' ''Data''
        ''Evento Importado'' =
       (example_fs,
        [Warning_default_subject ''Evento Importado'',
         Warning_no_date [(Some ''Assunto'', Str ''X''), (Some ''Data'', Str [])],
         Error_invalid_date ''bad-date'',
         Critical_error PermissionError])"
    by (simp add: critical_def)
  from missing_input_single_write [of example_fs "''eventos.csv''"
      "(example_env scenario_lines [])\<lparr>write_fault := \<lambda>path bytes. Some (OSError, 0)\<rparr>"
      "''calendario.ics''" "'';''" "''Assunto''" "''Data''" "''Evento Importado''"
      OSError "(?records, None)"
      "\<lparr>ics_events =
        event_block
          ((example_env scenario_lines [])\<lparr>write_fault := \<lambda>path bytes. Some (OSError, 0)\<rparr>)
          0 ''Dentist''
          \<lparr>year = 2024, month = 5, day = 20, hour = 0, minute = 0, second = 0, microsecond = 0\<rparr>
        @ event_block
          ((example_env scenario_lines [])\<lparr>write_fault := \<lambda>path bytes. Some (OSError, 0)\<rparr>)
          1 ''Evento Importado''
          \<lparr>year = 2024, month = 5, day = 21, hour = 0, minute = 0, second = 0, microsecond = 0\<rparr>,
      processed_count = 2, calls = 2,
      log = [Warning_default_subject ''Evento Importado'',
             Warning_no_date [(Some ''Assunto'', Str ''X''), (Some ''Data'', Str [])],
             Error_invalid_date ''bad-date'']\<rparr>" 0]
    reader3 [OF lines3(3)]
    rows3 [of "(example_env scenario_lines [])\<lparr>write_fault := \<lambda>path bytes. Some (OSError, 0)\<rparr>"]
  have run5: "process_csv
        ((example_env scenario_lines [])\<lparr>write_fault := \<lambda>path bytes. Some (OSError, 0)\<rparr>)
        example_fs ''eventos.csv'' ''calendario.ics'' '';'' ''Assunto'' ''Data''
        ''Evento Importado'' =
       (example_fs(''calendario.ics'' \<mapsto> []),
        [Warning_default_subject ''Evento Importado'',
         Warning_no_date [(Some ''Assunto'', Str ''X''), (Some ''Data'', Str [])],
         Error_invalid_date ''bad-date'',
         Critical_error OSError])"
    by (simp add: critical_def example_env_def)
  from absent run1 reader2 rows2 run2 reader3 [OF lines3(1)] run3 run4 run5 show ?thesis
    by simp
qed

section \<open>Matching the column names\<close>

text \<open>
  C8, as the code has it. The names of the header are normalized by trimming and
  lowercasing, the configured names by lowercasing only. For a record that has a field
  for every column of the header: when the configured name, lowercased, equals a header
  name that is not empty, trimmed and lowercased, the lookup finds the trimmed value of a
  column whose normalized name is that one, and of that very column when the normalized
  names of the header are distinct. So the value is found when the two names differ in
  letter case or in whitespace around the header's name.
\<close>

theorem column_lookup_normalized:
  assumes "length fieldnames \<le> length r"
    and "i < length fieldnames"
    and "fieldnames ! i \<noteq> []"
    and "lower col = lower (strip (fieldnames ! i))"
  shows "\<exists>rc j. row_clean (dict_row fieldnames r) = Inr rc
     \<and> j < length fieldnames
     \<and> lower (strip (fieldnames ! j)) = lower col
     \<and> dict_get rc (lower col) = Some (strip (r ! j))
     \<and> (distinct (map (\<lambda>f. lower (strip f)) fieldnames) \<longrightarrow> j = i)"
proof -
  let ?items = "dict_row fieldnames r"
  have strings: "\<forall>(k, v) \<in> set ?items. k = None \<or> (\<exists>s. v = Str s)"
    using dict_row_items [OF assms(1)] by blast
  from dict_row_has_key [OF assms(1,2)] obtain v where
    v: "(Some (fieldnames ! i), v) \<in> set ?items"
    by blast
  with dict_row_items [OF assms(1) v] obtain s0 where "v = Str s0"
    by auto
  with v assms(3,4)
  have present: "\<exists>k s. (Some k, Str s) \<in> set ?items \<and> k \<noteq> [] \<and> lower (strip k) = lower col"
    by auto
  from clean_items_lookup [OF strings, of "[]" "lower col"] present obtain rc k s where
    rc: "clean_items ?items [] = Inr rc"
    and ks: "(Some k, Str s) \<in> set ?items" "lower (strip k) = lower col"
      "map_of rc (lower col) = Some (strip s)"
    by blast
  from dict_row_items [OF assms(1) ks(1)] have "(k, s) \<in> set (zip fieldnames r)"
    by simp
  then obtain j where j: "j < length fieldnames" "fieldnames ! j = k" "r ! j = s"
    by (auto simp: set_zip)
  have "j = i" if "distinct (map (\<lambda>f. lower (strip f)) fieldnames)"
  proof -
    from j ks(2) assms(2,4)
    have "map (\<lambda>f. lower (strip f)) fieldnames ! j = map (\<lambda>f. lower (strip f)) fieldnames ! i"
      by simp
    with that j(1) assms(2)
      nth_eq_iff_index_eq [of "map (\<lambda>f. lower (strip f)) fieldnames" j i]
    show ?thesis
      by simp
  qed
  with rc ks j show ?thesis
    unfolding row_clean_def dict_get_def by blast
qed

theorem column_lookup_normalized_witness:
  "length [''Assunto'', '' DATA ''] \<le> length [''Dentist'', ''20/05/2024'']
   \<and> lower ''Data'' = lower (strip ([''Assunto'', '' DATA ''] ! 1))
   \<and> (\<exists>rc. row_clean (dict_row [''Assunto'', '' DATA ''] [''Dentist'', ''20/05/2024'']) = Inr rc
         \<and> dict_get rc (lower ''Data'') = Some ''20/05/2024'')"
proof -
  have target: "lower ''Data'' = lower (strip ([''Assunto'', '' DATA ''] ! 1))"
    using padded_header_normalized(1) by (simp add: lower_default_columns)
  from column_lookup_normalized [of "[''Assunto'', '' DATA '']" "[''Dentist'', ''20/05/2024'']"
      1 "''Data''"] target
  obtain rc j where
    "row_clean (dict_row [''Assunto'', '' DATA ''] [''Dentist'', ''20/05/2024'']) = Inr rc"
    "dict_get rc (lower ''Data'') = Some (strip ([''Dentist'', ''20/05/2024''] ! j))"
    "distinct (map (\<lambda>f. lower (strip f)) [''Assunto'', '' DATA '']) \<longrightarrow> j = 1"
    by auto
  moreover have "distinct (map (\<lambda>f. lower (strip f)) [''Assunto'', '' DATA ''])"
    unfolding padded_header_normalized(1) by simp
  ultimately
  have "row_clean (dict_row [''Assunto'', '' DATA ''] [''Dentist'', ''20/05/2024'']) = Inr rc
         \<and> dict_get rc (lower ''Data'') = Some ''20/05/2024''"
    using padded_header_normalized(2) by simp
  with target show ?thesis by auto
qed

text \<open>
  The configured name \<open>Data\<close> with a space in front differs from the header's name
  \<open>Data\<close> in surrounding whitespace only, and both names trimmed and lowercased are
  equal; but the configured name is lowercased without trimming, so the lookup finds no
  value and the row, whose date is valid, is skipped for a missing date.
\<close>

theorem column_lookup_counterexample:
  "lower (strip '' Data'') = lower (strip ''Data'')
   \<and> lower '' Data'' \<noteq> lower (strip '' Data'')
   \<and> row_clean (dict_row [''Assunto'', ''Data''] [''Dentist'', ''20/05/2024'']) =
       Inr [(''assunto'', ''Dentist''), (''data'', ''20/05/2024'')]
   \<and> dict_get [(''assunto'', ''Dentist''), (''data'', ''20/05/2024'')] (lower '' Data'') = None
   \<and> read_rows (example_env [] []) (lower '' Assunto'') (lower '' Data'') ''Evento Importado''
        ([[''Assunto'', ''Data''], [''Dentist'', ''20/05/2024'']], None) =
       (\<lparr>ics_events = [], processed_count = 0, calls = 0,
         log = [Warning_default_subject ''Evento Importado'',
                Warning_no_date
                  [(Some ''Assunto'', Str ''Dentist''), (Some ''Data'', Str ''20/05/2024'')]]\<rparr>,
        None)"
proof -
  have "lower '' Assunto'' = '' assunto''"
    by code_simp
  then show ?thesis
    by (simp add: padded_header_normalized dict_row_def scenario_rows_clean dict_get_def
        read_rows_def padded_target_skipped)
qed

section \<open>Identifiers\<close>




section \<open>The subject line\<close>

text \<open>
  C10. For every subject, the sixth line of the event block is \<open>SUMMARY:\<close> followed by
  the subject, character for character: nothing is escaped. A quoted field with a line
  break inside reaches the block as it is, since trimming removes outer whitespace only:
  the input whose subject field is \<open>Reuniao\<close>, a line feed and \<open>geral\<close> in quotes is read
  as one record, and the subject line of its block holds the line feed, so the subject
  is spread over two lines of the written text.
\<close>

theorem summary_verbatim:
  "(\<exists>b. generate_event_block e k subject d = Inr b \<and> length b = 14
        \<and> b ! 5 = ''SUMMARY:'' @ subject)
   \<and> csv_reader '';'' quoted_break_lines =
       Inr ([[''Assunto'', ''Data''], [''Reuniao'' @ [CHR 0x0A] @ ''geral'', ''20/05/2024'']],
            None)
   \<and> ics_events (fst (read_rows e (lower ''Assunto'') (lower ''Data'') ''Evento Importado''
        ([[''Assunto'', ''Data''], [''Reuniao'' @ [CHR 0x0A] @ ''geral'', ''20/05/2024'']],
         None))) ! 5 = ''SUMMARY:Reuniao'' @ [CHR 0x0A] @ ''geral''"
proof -
  have "read_rows e ''assunto'' ''data'' ''Evento Importado''
        ([[''Assunto'', ''Data''], [''Reuniao'' @ [CHR 0x0A] @ ''geral'', ''20/05/2024'']], None)
     = (\<lparr>ics_events = event_block e 0 (''Reuniao'' @ [CHR 0x0A] @ ''geral'')
          \<lparr>year = 2024, month = 5, day = 20, hour = 0, minute = 0, second = 0, microsecond = 0\<rparr>,
        processed_count = 1, calls = 1, log = []\<rparr>, None)"
    using quoted_break_accepted [of e]
    by (simp add: read_rows_def dict_row_def)
  then show ?thesis
    using quoted_break_records
    by (simp add: lower_default_columns generate_event_block_value event_block_value)
qed

end
